theory Spec2Isabelle
  imports Main "HOL-Library.Word"
begin

section \<open>Python strings\<close>

text \<open>
  A Python \<open>str\<close> is a sequence of Unicode code points, here a list of naturals.
  ASCII text is written as an Isabelle string and converted with \<open>py\<close>; the other
  code points are written as hexadecimal numerals.
\<close>

type_synonym pystr = "nat list"

definition py :: "string \<Rightarrow> pystr" where
  "py s = map of_char s"

abbreviation slash :: nat where "slash \<equiv> 0x2F"
abbreviation bslash :: nat where "bslash \<equiv> 0x5C"
abbreviation colon :: nat where "colon \<equiv> 0x3A"
abbreviation dot :: nat where "dot \<equiv> 0x2E"

subsection \<open>\<open>str.lower\<close>\<close>

text \<open>
  \<open>str.lower()\<close> maps every code point through the full lowercase mapping of the
  Unicode character database (CPython's \<open>_PyUnicode_ToLowerFull\<close>), except
  U+03A3, whose image depends on the Final_Sigma context
  (\<open>handle_capital_sigma\<close>). The tables below are those of CPython 3.11
  (Unicode 14.0): \<open>lower_runs\<close> lists the simple lowercase mappings as runs
  \<open>(lo, hi, step, target)\<close>, meaning that \<open>lo + k * step \<le> hi\<close> maps to
  \<open>target + k * step\<close>; U+0130 is the only code point whose lowercase has two
  code points. The runs and ranges are sorted, so a lookup stops at the first
  entry that starts above the code point.
\<close>

definition lower_runs :: "(nat \<times> nat \<times> nat \<times> nat) list" where
  "lower_runs = [
    (0x41, 0x5A, 1, 0x61), (0xC0, 0xD6, 1, 0xE0), (0xD8, 0xDE, 1, 0xF8), (0x100, 0x12E, 2, 0x101),
    (0x132, 0x136, 2, 0x133), (0x139, 0x147, 2, 0x13A), (0x14A, 0x176, 2, 0x14B), (0x178, 0x178, 1, 0xFF),
    (0x179, 0x17D, 2, 0x17A), (0x181, 0x181, 1, 0x253), (0x182, 0x184, 2, 0x183), (0x186, 0x186, 1, 0x254),
    (0x187, 0x187, 1, 0x188), (0x189, 0x18A, 1, 0x256), (0x18B, 0x18B, 1, 0x18C), (0x18E, 0x18E, 1, 0x1DD),
    (0x18F, 0x18F, 1, 0x259), (0x190, 0x190, 1, 0x25B), (0x191, 0x191, 1, 0x192), (0x193, 0x193, 1, 0x260),
    (0x194, 0x194, 1, 0x263), (0x196, 0x196, 1, 0x269), (0x197, 0x197, 1, 0x268), (0x198, 0x198, 1, 0x199),
    (0x19C, 0x19C, 1, 0x26F), (0x19D, 0x19D, 1, 0x272), (0x19F, 0x19F, 1, 0x275), (0x1A0, 0x1A4, 2, 0x1A1),
    (0x1A6, 0x1A6, 1, 0x280), (0x1A7, 0x1A7, 1, 0x1A8), (0x1A9, 0x1A9, 1, 0x283), (0x1AC, 0x1AC, 1, 0x1AD),
    (0x1AE, 0x1AE, 1, 0x288), (0x1AF, 0x1AF, 1, 0x1B0), (0x1B1, 0x1B2, 1, 0x28A), (0x1B3, 0x1B5, 2, 0x1B4),
    (0x1B7, 0x1B7, 1, 0x292), (0x1B8, 0x1B8, 1, 0x1B9), (0x1BC, 0x1BC, 1, 0x1BD), (0x1C4, 0x1C4, 1, 0x1C6),
    (0x1C5, 0x1C5, 1, 0x1C6), (0x1C7, 0x1C7, 1, 0x1C9), (0x1C8, 0x1C8, 1, 0x1C9), (0x1CA, 0x1CA, 1, 0x1CC),
    (0x1CB, 0x1DB, 2, 0x1CC), (0x1DE, 0x1EE, 2, 0x1DF), (0x1F1, 0x1F1, 1, 0x1F3), (0x1F2, 0x1F4, 2, 0x1F3),
    (0x1F6, 0x1F6, 1, 0x195), (0x1F7, 0x1F7, 1, 0x1BF), (0x1F8, 0x21E, 2, 0x1F9), (0x220, 0x220, 1, 0x19E),
    (0x222, 0x232, 2, 0x223), (0x23A, 0x23A, 1, 0x2C65), (0x23B, 0x23B, 1, 0x23C), (0x23D, 0x23D, 1, 0x19A),
    (0x23E, 0x23E, 1, 0x2C66), (0x241, 0x241, 1, 0x242), (0x243, 0x243, 1, 0x180), (0x244, 0x244, 1, 0x289),
    (0x245, 0x245, 1, 0x28C), (0x246, 0x24E, 2, 0x247), (0x370, 0x372, 2, 0x371), (0x376, 0x376, 1, 0x377),
    (0x37F, 0x37F, 1, 0x3F3), (0x386, 0x386, 1, 0x3AC), (0x388, 0x38A, 1, 0x3AD), (0x38C, 0x38C, 1, 0x3CC),
    (0x38E, 0x38F, 1, 0x3CD), (0x391, 0x3A1, 1, 0x3B1), (0x3A4, 0x3AB, 1, 0x3C4), (0x3CF, 0x3CF, 1, 0x3D7),
    (0x3D8, 0x3EE, 2, 0x3D9), (0x3F4, 0x3F4, 1, 0x3B8), (0x3F7, 0x3F7, 1, 0x3F8), (0x3F9, 0x3F9, 1, 0x3F2),
    (0x3FA, 0x3FA, 1, 0x3FB), (0x3FD, 0x3FF, 1, 0x37B), (0x400, 0x40F, 1, 0x450), (0x410, 0x42F, 1, 0x430),
    (0x460, 0x480, 2, 0x461), (0x48A, 0x4BE, 2, 0x48B), (0x4C0, 0x4C0, 1, 0x4CF), (0x4C1, 0x4CD, 2, 0x4C2),
    (0x4D0, 0x52E, 2, 0x4D1), (0x531, 0x556, 1, 0x561), (0x10A0, 0x10C5, 1, 0x2D00), (0x10C7, 0x10C7, 1, 0x2D27),
    (0x10CD, 0x10CD, 1, 0x2D2D), (0x13A0, 0x13EF, 1, 0xAB70), (0x13F0, 0x13F5, 1, 0x13F8), (0x1C90, 0x1CBA, 1, 0x10D0),
    (0x1CBD, 0x1CBF, 1, 0x10FD), (0x1E00, 0x1E94, 2, 0x1E01), (0x1E9E, 0x1E9E, 1, 0xDF), (0x1EA0, 0x1EFE, 2, 0x1EA1),
    (0x1F08, 0x1F0F, 1, 0x1F00), (0x1F18, 0x1F1D, 1, 0x1F10), (0x1F28, 0x1F2F, 1, 0x1F20), (0x1F38, 0x1F3F, 1, 0x1F30),
    (0x1F48, 0x1F4D, 1, 0x1F40), (0x1F59, 0x1F5F, 2, 0x1F51), (0x1F68, 0x1F6F, 1, 0x1F60), (0x1F88, 0x1F8F, 1, 0x1F80),
    (0x1F98, 0x1F9F, 1, 0x1F90), (0x1FA8, 0x1FAF, 1, 0x1FA0), (0x1FB8, 0x1FB9, 1, 0x1FB0), (0x1FBA, 0x1FBB, 1, 0x1F70),
    (0x1FBC, 0x1FBC, 1, 0x1FB3), (0x1FC8, 0x1FCB, 1, 0x1F72), (0x1FCC, 0x1FCC, 1, 0x1FC3), (0x1FD8, 0x1FD9, 1, 0x1FD0),
    (0x1FDA, 0x1FDB, 1, 0x1F76), (0x1FE8, 0x1FE9, 1, 0x1FE0), (0x1FEA, 0x1FEB, 1, 0x1F7A), (0x1FEC, 0x1FEC, 1, 0x1FE5),
    (0x1FF8, 0x1FF9, 1, 0x1F78), (0x1FFA, 0x1FFB, 1, 0x1F7C), (0x1FFC, 0x1FFC, 1, 0x1FF3), (0x2126, 0x2126, 1, 0x3C9),
    (0x212A, 0x212A, 1, 0x6B), (0x212B, 0x212B, 1, 0xE5), (0x2132, 0x2132, 1, 0x214E), (0x2160, 0x216F, 1, 0x2170),
    (0x2183, 0x2183, 1, 0x2184), (0x24B6, 0x24CF, 1, 0x24D0), (0x2C00, 0x2C2F, 1, 0x2C30), (0x2C60, 0x2C60, 1, 0x2C61),
    (0x2C62, 0x2C62, 1, 0x26B), (0x2C63, 0x2C63, 1, 0x1D7D), (0x2C64, 0x2C64, 1, 0x27D), (0x2C67, 0x2C6B, 2, 0x2C68),
    (0x2C6D, 0x2C6D, 1, 0x251), (0x2C6E, 0x2C6E, 1, 0x271), (0x2C6F, 0x2C6F, 1, 0x250), (0x2C70, 0x2C70, 1, 0x252),
    (0x2C72, 0x2C72, 1, 0x2C73), (0x2C75, 0x2C75, 1, 0x2C76), (0x2C7E, 0x2C7F, 1, 0x23F), (0x2C80, 0x2CE2, 2, 0x2C81),
    (0x2CEB, 0x2CED, 2, 0x2CEC), (0x2CF2, 0x2CF2, 1, 0x2CF3), (0xA640, 0xA66C, 2, 0xA641), (0xA680, 0xA69A, 2, 0xA681),
    (0xA722, 0xA72E, 2, 0xA723), (0xA732, 0xA76E, 2, 0xA733), (0xA779, 0xA77B, 2, 0xA77A), (0xA77D, 0xA77D, 1, 0x1D79),
    (0xA77E, 0xA786, 2, 0xA77F), (0xA78B, 0xA78B, 1, 0xA78C), (0xA78D, 0xA78D, 1, 0x265), (0xA790, 0xA792, 2, 0xA791),
    (0xA796, 0xA7A8, 2, 0xA797), (0xA7AA, 0xA7AA, 1, 0x266), (0xA7AB, 0xA7AB, 1, 0x25C), (0xA7AC, 0xA7AC, 1, 0x261),
    (0xA7AD, 0xA7AD, 1, 0x26C), (0xA7AE, 0xA7AE, 1, 0x26A), (0xA7B0, 0xA7B0, 1, 0x29E), (0xA7B1, 0xA7B1, 1, 0x287),
    (0xA7B2, 0xA7B2, 1, 0x29D), (0xA7B3, 0xA7B3, 1, 0xAB53), (0xA7B4, 0xA7C2, 2, 0xA7B5), (0xA7C4, 0xA7C4, 1, 0xA794),
    (0xA7C5, 0xA7C5, 1, 0x282), (0xA7C6, 0xA7C6, 1, 0x1D8E), (0xA7C7, 0xA7C9, 2, 0xA7C8), (0xA7D0, 0xA7D0, 1, 0xA7D1),
    (0xA7D6, 0xA7D8, 2, 0xA7D7), (0xA7F5, 0xA7F5, 1, 0xA7F6), (0xFF21, 0xFF3A, 1, 0xFF41), (0x10400, 0x10427, 1, 0x10428),
    (0x104B0, 0x104D3, 1, 0x104D8), (0x10570, 0x1057A, 1, 0x10597), (0x1057C, 0x1058A, 1, 0x105A3), (0x1058C, 0x10592, 1, 0x105B3),
    (0x10594, 0x10595, 1, 0x105BB), (0x10C80, 0x10CB2, 1, 0x10CC0), (0x118A0, 0x118BF, 1, 0x118C0), (0x16E40, 0x16E5F, 1, 0x16E60),
    (0x1E900, 0x1E921, 1, 0x1E922)]"

definition cased_ranges :: "(nat \<times> nat) list" where
  "cased_ranges = [
    (0x41, 0x5A), (0x61, 0x7A), (0xAA, 0xAA), (0xB5, 0xB5), (0xBA, 0xBA), (0xC0, 0xD6),
    (0xD8, 0xF6), (0xF8, 0x1BA), (0x1BC, 0x1BF), (0x1C4, 0x293), (0x295, 0x2B8), (0x2C0, 0x2C1),
    (0x2E0, 0x2E4), (0x345, 0x345), (0x370, 0x373), (0x376, 0x377), (0x37A, 0x37D), (0x37F, 0x37F),
    (0x386, 0x386), (0x388, 0x38A), (0x38C, 0x38C), (0x38E, 0x3A1), (0x3A3, 0x3F5), (0x3F7, 0x481),
    (0x48A, 0x52F), (0x531, 0x556), (0x560, 0x588), (0x10A0, 0x10C5), (0x10C7, 0x10C7), (0x10CD, 0x10CD),
    (0x10D0, 0x10FA), (0x10FD, 0x10FF), (0x13A0, 0x13F5), (0x13F8, 0x13FD), (0x1C80, 0x1C88), (0x1C90, 0x1CBA),
    (0x1CBD, 0x1CBF), (0x1D00, 0x1DBF), (0x1E00, 0x1F15), (0x1F18, 0x1F1D), (0x1F20, 0x1F45), (0x1F48, 0x1F4D),
    (0x1F50, 0x1F57), (0x1F59, 0x1F59), (0x1F5B, 0x1F5B), (0x1F5D, 0x1F5D), (0x1F5F, 0x1F7D), (0x1F80, 0x1FB4),
    (0x1FB6, 0x1FBC), (0x1FBE, 0x1FBE), (0x1FC2, 0x1FC4), (0x1FC6, 0x1FCC), (0x1FD0, 0x1FD3), (0x1FD6, 0x1FDB),
    (0x1FE0, 0x1FEC), (0x1FF2, 0x1FF4), (0x1FF6, 0x1FFC), (0x2071, 0x2071), (0x207F, 0x207F), (0x2090, 0x209C),
    (0x2102, 0x2102), (0x2107, 0x2107), (0x210A, 0x2113), (0x2115, 0x2115), (0x2119, 0x211D), (0x2124, 0x2124),
    (0x2126, 0x2126), (0x2128, 0x2128), (0x212A, 0x212D), (0x212F, 0x2134), (0x2139, 0x2139), (0x213C, 0x213F),
    (0x2145, 0x2149), (0x214E, 0x214E), (0x2160, 0x217F), (0x2183, 0x2184), (0x24B6, 0x24E9), (0x2C00, 0x2CE4),
    (0x2CEB, 0x2CEE), (0x2CF2, 0x2CF3), (0x2D00, 0x2D25), (0x2D27, 0x2D27), (0x2D2D, 0x2D2D), (0xA640, 0xA66D),
    (0xA680, 0xA69D), (0xA722, 0xA787), (0xA78B, 0xA78E), (0xA790, 0xA7CA), (0xA7D0, 0xA7D1), (0xA7D3, 0xA7D3),
    (0xA7D5, 0xA7D9), (0xA7F5, 0xA7F6), (0xA7F8, 0xA7FA), (0xAB30, 0xAB5A), (0xAB5C, 0xAB68), (0xAB70, 0xABBF),
    (0xFB00, 0xFB06), (0xFB13, 0xFB17), (0xFF21, 0xFF3A), (0xFF41, 0xFF5A), (0x10400, 0x1044F), (0x104B0, 0x104D3),
    (0x104D8, 0x104FB), (0x10570, 0x1057A), (0x1057C, 0x1058A), (0x1058C, 0x10592), (0x10594, 0x10595), (0x10597, 0x105A1),
    (0x105A3, 0x105B1), (0x105B3, 0x105B9), (0x105BB, 0x105BC), (0x10780, 0x10780), (0x10783, 0x10785), (0x10787, 0x107B0),
    (0x107B2, 0x107BA), (0x10C80, 0x10CB2), (0x10CC0, 0x10CF2), (0x118A0, 0x118DF), (0x16E40, 0x16E7F), (0x1D400, 0x1D454),
    (0x1D456, 0x1D49C), (0x1D49E, 0x1D49F), (0x1D4A2, 0x1D4A2), (0x1D4A5, 0x1D4A6), (0x1D4A9, 0x1D4AC), (0x1D4AE, 0x1D4B9),
    (0x1D4BB, 0x1D4BB), (0x1D4BD, 0x1D4C3), (0x1D4C5, 0x1D505), (0x1D507, 0x1D50A), (0x1D50D, 0x1D514), (0x1D516, 0x1D51C),
    (0x1D51E, 0x1D539), (0x1D53B, 0x1D53E), (0x1D540, 0x1D544), (0x1D546, 0x1D546), (0x1D54A, 0x1D550), (0x1D552, 0x1D6A5),
    (0x1D6A8, 0x1D6C0), (0x1D6C2, 0x1D6DA), (0x1D6DC, 0x1D6FA), (0x1D6FC, 0x1D714), (0x1D716, 0x1D734), (0x1D736, 0x1D74E),
    (0x1D750, 0x1D76E), (0x1D770, 0x1D788), (0x1D78A, 0x1D7A8), (0x1D7AA, 0x1D7C2), (0x1D7C4, 0x1D7CB), (0x1DF00, 0x1DF09),
    (0x1DF0B, 0x1DF1E), (0x1E900, 0x1E943), (0x1F130, 0x1F149), (0x1F150, 0x1F169), (0x1F170, 0x1F189)]"

definition case_ignorable_ranges :: "(nat \<times> nat) list" where
  "case_ignorable_ranges = [
    (0x27, 0x27), (0x2E, 0x2E), (0x3A, 0x3A), (0x5E, 0x5E), (0x60, 0x60), (0xA8, 0xA8),
    (0xAD, 0xAD), (0xAF, 0xAF), (0xB4, 0xB4), (0xB7, 0xB8), (0x2B0, 0x36F), (0x374, 0x375),
    (0x37A, 0x37A), (0x384, 0x385), (0x387, 0x387), (0x483, 0x489), (0x559, 0x559), (0x55F, 0x55F),
    (0x591, 0x5BD), (0x5BF, 0x5BF), (0x5C1, 0x5C2), (0x5C4, 0x5C5), (0x5C7, 0x5C7), (0x5F4, 0x5F4),
    (0x600, 0x605), (0x610, 0x61A), (0x61C, 0x61C), (0x640, 0x640), (0x64B, 0x65F), (0x670, 0x670),
    (0x6D6, 0x6DD), (0x6DF, 0x6E8), (0x6EA, 0x6ED), (0x70F, 0x70F), (0x711, 0x711), (0x730, 0x74A),
    (0x7A6, 0x7B0), (0x7EB, 0x7F5), (0x7FA, 0x7FA), (0x7FD, 0x7FD), (0x816, 0x82D), (0x859, 0x85B),
    (0x888, 0x888), (0x890, 0x891), (0x898, 0x89F), (0x8C9, 0x902), (0x93A, 0x93A), (0x93C, 0x93C),
    (0x941, 0x948), (0x94D, 0x94D), (0x951, 0x957), (0x962, 0x963), (0x971, 0x971), (0x981, 0x981),
    (0x9BC, 0x9BC), (0x9C1, 0x9C4), (0x9CD, 0x9CD), (0x9E2, 0x9E3), (0x9FE, 0x9FE), (0xA01, 0xA02),
    (0xA3C, 0xA3C), (0xA41, 0xA42), (0xA47, 0xA48), (0xA4B, 0xA4D), (0xA51, 0xA51), (0xA70, 0xA71),
    (0xA75, 0xA75), (0xA81, 0xA82), (0xABC, 0xABC), (0xAC1, 0xAC5), (0xAC7, 0xAC8), (0xACD, 0xACD),
    (0xAE2, 0xAE3), (0xAFA, 0xAFF), (0xB01, 0xB01), (0xB3C, 0xB3C), (0xB3F, 0xB3F), (0xB41, 0xB44),
    (0xB4D, 0xB4D), (0xB55, 0xB56), (0xB62, 0xB63), (0xB82, 0xB82), (0xBC0, 0xBC0), (0xBCD, 0xBCD),
    (0xC00, 0xC00), (0xC04, 0xC04), (0xC3C, 0xC3C), (0xC3E, 0xC40), (0xC46, 0xC48), (0xC4A, 0xC4D),
    (0xC55, 0xC56), (0xC62, 0xC63), (0xC81, 0xC81), (0xCBC, 0xCBC), (0xCBF, 0xCBF), (0xCC6, 0xCC6),
    (0xCCC, 0xCCD), (0xCE2, 0xCE3), (0xD00, 0xD01), (0xD3B, 0xD3C), (0xD41, 0xD44), (0xD4D, 0xD4D),
    (0xD62, 0xD63), (0xD81, 0xD81), (0xDCA, 0xDCA), (0xDD2, 0xDD4), (0xDD6, 0xDD6), (0xE31, 0xE31),
    (0xE34, 0xE3A), (0xE46, 0xE4E), (0xEB1, 0xEB1), (0xEB4, 0xEBC), (0xEC6, 0xEC6), (0xEC8, 0xECD),
    (0xF18, 0xF19), (0xF35, 0xF35), (0xF37, 0xF37), (0xF39, 0xF39), (0xF71, 0xF7E), (0xF80, 0xF84),
    (0xF86, 0xF87), (0xF8D, 0xF97), (0xF99, 0xFBC), (0xFC6, 0xFC6), (0x102D, 0x1030), (0x1032, 0x1037),
    (0x1039, 0x103A), (0x103D, 0x103E), (0x1058, 0x1059), (0x105E, 0x1060), (0x1071, 0x1074), (0x1082, 0x1082),
    (0x1085, 0x1086), (0x108D, 0x108D), (0x109D, 0x109D), (0x10FC, 0x10FC), (0x135D, 0x135F), (0x1712, 0x1714),
    (0x1732, 0x1733), (0x1752, 0x1753), (0x1772, 0x1773), (0x17B4, 0x17B5), (0x17B7, 0x17BD), (0x17C6, 0x17C6),
    (0x17C9, 0x17D3), (0x17D7, 0x17D7), (0x17DD, 0x17DD), (0x180B, 0x180F), (0x1843, 0x1843), (0x1885, 0x1886),
    (0x18A9, 0x18A9), (0x1920, 0x1922), (0x1927, 0x1928), (0x1932, 0x1932), (0x1939, 0x193B), (0x1A17, 0x1A18),
    (0x1A1B, 0x1A1B), (0x1A56, 0x1A56), (0x1A58, 0x1A5E), (0x1A60, 0x1A60), (0x1A62, 0x1A62), (0x1A65, 0x1A6C),
    (0x1A73, 0x1A7C), (0x1A7F, 0x1A7F), (0x1AA7, 0x1AA7), (0x1AB0, 0x1ACE), (0x1B00, 0x1B03), (0x1B34, 0x1B34),
    (0x1B36, 0x1B3A), (0x1B3C, 0x1B3C), (0x1B42, 0x1B42), (0x1B6B, 0x1B73), (0x1B80, 0x1B81), (0x1BA2, 0x1BA5),
    (0x1BA8, 0x1BA9), (0x1BAB, 0x1BAD), (0x1BE6, 0x1BE6), (0x1BE8, 0x1BE9), (0x1BED, 0x1BED), (0x1BEF, 0x1BF1),
    (0x1C2C, 0x1C33), (0x1C36, 0x1C37), (0x1C78, 0x1C7D), (0x1CD0, 0x1CD2), (0x1CD4, 0x1CE0), (0x1CE2, 0x1CE8),
    (0x1CED, 0x1CED), (0x1CF4, 0x1CF4), (0x1CF8, 0x1CF9), (0x1D2C, 0x1D6A), (0x1D78, 0x1D78), (0x1D9B, 0x1DFF),
    (0x1FBD, 0x1FBD), (0x1FBF, 0x1FC1), (0x1FCD, 0x1FCF), (0x1FDD, 0x1FDF), (0x1FED, 0x1FEF), (0x1FFD, 0x1FFE),
    (0x200B, 0x200F), (0x2018, 0x2019), (0x2024, 0x2024), (0x2027, 0x2027), (0x202A, 0x202E), (0x2060, 0x2064),
    (0x2066, 0x206F), (0x2071, 0x2071), (0x207F, 0x207F), (0x2090, 0x209C), (0x20D0, 0x20F0), (0x2C7C, 0x2C7D),
    (0x2CEF, 0x2CF1), (0x2D6F, 0x2D6F), (0x2D7F, 0x2D7F), (0x2DE0, 0x2DFF), (0x2E2F, 0x2E2F), (0x3005, 0x3005),
    (0x302A, 0x302D), (0x3031, 0x3035), (0x303B, 0x303B), (0x3099, 0x309E), (0x30FC, 0x30FE), (0xA015, 0xA015),
    (0xA4F8, 0xA4FD), (0xA60C, 0xA60C), (0xA66F, 0xA672), (0xA674, 0xA67D), (0xA67F, 0xA67F), (0xA69C, 0xA69F),
    (0xA6F0, 0xA6F1), (0xA700, 0xA721), (0xA770, 0xA770), (0xA788, 0xA78A), (0xA7F2, 0xA7F4), (0xA7F8, 0xA7F9),
    (0xA802, 0xA802), (0xA806, 0xA806), (0xA80B, 0xA80B), (0xA825, 0xA826), (0xA82C, 0xA82C), (0xA8C4, 0xA8C5),
    (0xA8E0, 0xA8F1), (0xA8FF, 0xA8FF), (0xA926, 0xA92D), (0xA947, 0xA951), (0xA980, 0xA982), (0xA9B3, 0xA9B3),
    (0xA9B6, 0xA9B9), (0xA9BC, 0xA9BD), (0xA9CF, 0xA9CF), (0xA9E5, 0xA9E6), (0xAA29, 0xAA2E), (0xAA31, 0xAA32),
    (0xAA35, 0xAA36), (0xAA43, 0xAA43), (0xAA4C, 0xAA4C), (0xAA70, 0xAA70), (0xAA7C, 0xAA7C), (0xAAB0, 0xAAB0),
    (0xAAB2, 0xAAB4), (0xAAB7, 0xAAB8), (0xAABE, 0xAABF), (0xAAC1, 0xAAC1), (0xAADD, 0xAADD), (0xAAEC, 0xAAED),
    (0xAAF3, 0xAAF4), (0xAAF6, 0xAAF6), (0xAB5B, 0xAB5F), (0xAB69, 0xAB6B), (0xABE5, 0xABE5), (0xABE8, 0xABE8),
    (0xABED, 0xABED), (0xFB1E, 0xFB1E), (0xFBB2, 0xFBC2), (0xFE00, 0xFE0F), (0xFE13, 0xFE13), (0xFE20, 0xFE2F),
    (0xFE52, 0xFE52), (0xFE55, 0xFE55), (0xFEFF, 0xFEFF), (0xFF07, 0xFF07), (0xFF0E, 0xFF0E), (0xFF1A, 0xFF1A),
    (0xFF3E, 0xFF3E), (0xFF40, 0xFF40), (0xFF70, 0xFF70), (0xFF9E, 0xFF9F), (0xFFE3, 0xFFE3), (0xFFF9, 0xFFFB),
    (0x101FD, 0x101FD), (0x102E0, 0x102E0), (0x10376, 0x1037A), (0x10780, 0x10785), (0x10787, 0x107B0), (0x107B2, 0x107BA),
    (0x10A01, 0x10A03), (0x10A05, 0x10A06), (0x10A0C, 0x10A0F), (0x10A38, 0x10A3A), (0x10A3F, 0x10A3F), (0x10AE5, 0x10AE6),
    (0x10D24, 0x10D27), (0x10EAB, 0x10EAC), (0x10F46, 0x10F50), (0x10F82, 0x10F85), (0x11001, 0x11001), (0x11038, 0x11046),
    (0x11070, 0x11070), (0x11073, 0x11074), (0x1107F, 0x11081), (0x110B3, 0x110B6), (0x110B9, 0x110BA), (0x110BD, 0x110BD),
    (0x110C2, 0x110C2), (0x110CD, 0x110CD), (0x11100, 0x11102), (0x11127, 0x1112B), (0x1112D, 0x11134), (0x11173, 0x11173),
    (0x11180, 0x11181), (0x111B6, 0x111BE), (0x111C9, 0x111CC), (0x111CF, 0x111CF), (0x1122F, 0x11231), (0x11234, 0x11234),
    (0x11236, 0x11237), (0x1123E, 0x1123E), (0x112DF, 0x112DF), (0x112E3, 0x112EA), (0x11300, 0x11301), (0x1133B, 0x1133C),
    (0x11340, 0x11340), (0x11366, 0x1136C), (0x11370, 0x11374), (0x11438, 0x1143F), (0x11442, 0x11444), (0x11446, 0x11446),
    (0x1145E, 0x1145E), (0x114B3, 0x114B8), (0x114BA, 0x114BA), (0x114BF, 0x114C0), (0x114C2, 0x114C3), (0x115B2, 0x115B5),
    (0x115BC, 0x115BD), (0x115BF, 0x115C0), (0x115DC, 0x115DD), (0x11633, 0x1163A), (0x1163D, 0x1163D), (0x1163F, 0x11640),
    (0x116AB, 0x116AB), (0x116AD, 0x116AD), (0x116B0, 0x116B5), (0x116B7, 0x116B7), (0x1171D, 0x1171F), (0x11722, 0x11725),
    (0x11727, 0x1172B), (0x1182F, 0x11837), (0x11839, 0x1183A), (0x1193B, 0x1193C), (0x1193E, 0x1193E), (0x11943, 0x11943),
    (0x119D4, 0x119D7), (0x119DA, 0x119DB), (0x119E0, 0x119E0), (0x11A01, 0x11A0A), (0x11A33, 0x11A38), (0x11A3B, 0x11A3E),
    (0x11A47, 0x11A47), (0x11A51, 0x11A56), (0x11A59, 0x11A5B), (0x11A8A, 0x11A96), (0x11A98, 0x11A99), (0x11C30, 0x11C36),
    (0x11C38, 0x11C3D), (0x11C3F, 0x11C3F), (0x11C92, 0x11CA7), (0x11CAA, 0x11CB0), (0x11CB2, 0x11CB3), (0x11CB5, 0x11CB6),
    (0x11D31, 0x11D36), (0x11D3A, 0x11D3A), (0x11D3C, 0x11D3D), (0x11D3F, 0x11D45), (0x11D47, 0x11D47), (0x11D90, 0x11D91),
    (0x11D95, 0x11D95), (0x11D97, 0x11D97), (0x11EF3, 0x11EF4), (0x13430, 0x13438), (0x16AF0, 0x16AF4), (0x16B30, 0x16B36),
    (0x16B40, 0x16B43), (0x16F4F, 0x16F4F), (0x16F8F, 0x16F9F), (0x16FE0, 0x16FE1), (0x16FE3, 0x16FE4), (0x1AFF0, 0x1AFF3),
    (0x1AFF5, 0x1AFFB), (0x1AFFD, 0x1AFFE), (0x1BC9D, 0x1BC9E), (0x1BCA0, 0x1BCA3), (0x1CF00, 0x1CF2D), (0x1CF30, 0x1CF46),
    (0x1D167, 0x1D169), (0x1D173, 0x1D182), (0x1D185, 0x1D18B), (0x1D1AA, 0x1D1AD), (0x1D242, 0x1D244), (0x1DA00, 0x1DA36),
    (0x1DA3B, 0x1DA6C), (0x1DA75, 0x1DA75), (0x1DA84, 0x1DA84), (0x1DA9B, 0x1DA9F), (0x1DAA1, 0x1DAAF), (0x1E000, 0x1E006),
    (0x1E008, 0x1E018), (0x1E01B, 0x1E021), (0x1E023, 0x1E024), (0x1E026, 0x1E02A), (0x1E130, 0x1E13D), (0x1E2AE, 0x1E2AE),
    (0x1E2EC, 0x1E2EF), (0x1E8D0, 0x1E8D6), (0x1E944, 0x1E94B), (0x1F3FB, 0x1F3FF), (0xE0001, 0xE0001), (0xE0020, 0xE007F),
    (0xE0100, 0xE01EF)]"

fun lookup_run :: "nat \<Rightarrow> (nat \<times> nat \<times> nat \<times> nat) list \<Rightarrow> nat option" where
  "lookup_run c [] = None"
| "lookup_run c ((lo, hi, step, t) # rs) =
     (if c < lo then None
      else if c \<le> hi \<and> (c - lo) mod step = 0 then Some (t + (c - lo))
      else lookup_run c rs)"

fun in_ranges :: "nat \<Rightarrow> (nat \<times> nat) list \<Rightarrow> bool" where
  "in_ranges c [] = False"
| "in_ranges c ((lo, hi) # rs) =
     (if c < lo then False else if c \<le> hi then True else in_ranges c rs)"

definition to_lower_full :: "nat \<Rightarrow> pystr" where
  "to_lower_full c =
     (if c = 0x130 then [0x69, 0x307]
      else case lookup_run c lower_runs of Some t \<Rightarrow> [t] | None \<Rightarrow> [c])"

definition cased :: "nat \<Rightarrow> bool" where
  "cased c = in_ranges c cased_ranges"

definition case_ignorable :: "nat \<Rightarrow> bool" where
  "case_ignorable c = in_ranges c case_ignorable_ranges"

text \<open>
  \<open>handle_capital_sigma\<close>: U+03A3 becomes the final sigma U+03C2 when it follows a
  cased letter (skipping case-ignorable code points) and is not followed by one;
  otherwise U+03C3. \<open>prev\<close> is the text before the sigma, nearest code point
  first.
\<close>

definition handle_capital_sigma :: "pystr \<Rightarrow> pystr \<Rightarrow> nat" where
  "handle_capital_sigma prev rest =
     (let final_sigma =
            (case dropWhile case_ignorable prev of [] \<Rightarrow> False | c # _ \<Rightarrow> cased c);
          final_sigma =
            (final_sigma \<and>
             (case dropWhile case_ignorable rest of [] \<Rightarrow> True | c # _ \<Rightarrow> \<not> cased c))
      in if final_sigma then 0x3C2 else 0x3C3)"

definition lower_ucs4 :: "pystr \<Rightarrow> nat \<Rightarrow> pystr \<Rightarrow> pystr" where
  "lower_ucs4 prev c rest =
     (if c = 0x3A3 then [handle_capital_sigma prev rest] else to_lower_full c)"

fun do_lower :: "pystr \<Rightarrow> pystr \<Rightarrow> pystr" where
  "do_lower prev [] = []"
| "do_lower prev (c # rest) = lower_ucs4 prev c rest @ do_lower (c # prev) rest"

definition lower :: "pystr \<Rightarrow> pystr" where
  "lower s = do_lower [] s"

section \<open>The denylist\<close>

definition SENSITIVE_FILES :: "pystr list" where
  "SENSITIVE_FILES = [
     py ''.env'',
     py ''.env.local'',
     py ''.env.production'',
     py ''.env.development'',
     py ''config.json'',
     py ''secrets.json'',
     py ''credentials.json'',
     py ''api_keys.json'',
     py ''private_key.pem'',
     py ''id_rsa'',
     py ''id_rsa.pub'',
     py ''.ssh/id_rsa'',
     py ''.ssh/id_rsa.pub'',
     py ''password.txt'',
     py ''passwords.txt'',
     py ''secret.txt'',
     py ''secrets.txt'',
     py ''database.yml'',
     py ''db_config.json'',
     py ''.aws/credentials'',
     py ''.aws/config'',
     py ''private.key'',
     py ''secret.key'',
     py ''token.txt'',
     [0x91CD, 0x8981, 0x8CC7, 0x8A0A] @ py ''.txt'']"

section \<open>\<open>pathlib\<close>: the final component of a path\<close>

text \<open>
  \<open>Path(file_path).name\<close> as CPython 3.11 computes it. \<open>Path\<close> is
  \<open>PosixPath\<close> or \<open>WindowsPath\<close> after the host (\<open>os.name\<close>); the flavour is
  a parameter of the model.
\<close>

datatype flavour = Posix | Windows

fun sep :: "flavour \<Rightarrow> nat" where
  "sep Posix = slash"
| "sep Windows = bslash"

fun altsep :: "flavour \<Rightarrow> nat option" where
  "altsep Posix = None"
| "altsep Windows = Some slash"

text \<open>\<open>s.split(c)\<close> for a one-character separator: never an empty list.\<close>

fun str_split :: "nat \<Rightarrow> pystr \<Rightarrow> pystr list" where
  "str_split c [] = [[]]"
| "str_split c (x # xs) =
     (if x = c then [] # str_split c xs
      else (case str_split c xs of [] \<Rightarrow> [[x]] | y # ys \<Rightarrow> (x # y) # ys))"

definition lstrip :: "nat \<Rightarrow> pystr \<Rightarrow> pystr" where
  "lstrip c s = dropWhile (\<lambda>x. x = c) s"

definition replace :: "nat \<Rightarrow> nat \<Rightarrow> pystr \<Rightarrow> pystr" where
  "replace old new s = map (\<lambda>x. if x = old then new else x) s"

text \<open>\<open>s.find(c, start)\<close>: the first index at or after \<open>start\<close>, \<open>None\<close> for -1.\<close>

fun find_at :: "nat \<Rightarrow> nat \<Rightarrow> pystr \<Rightarrow> nat option" where
  "find_at c i [] = None"
| "find_at c i (x # xs) = (if x = c then Some i else find_at c (Suc i) xs)"

definition find_from :: "nat \<Rightarrow> nat \<Rightarrow> pystr \<Rightarrow> nat option" where
  "find_from c start s = find_at c start (drop start s)"

definition splitroot_posix :: "pystr \<Rightarrow> pystr \<times> pystr \<times> pystr" where
  "splitroot_posix part =
     (if part \<noteq> [] \<and> hd part = slash then
        (let stripped_part = lstrip slash part in
         if length part - length stripped_part = 2 then ([], [slash, slash], stripped_part)
         else ([], [slash], stripped_part))
      else ([], [], part))"

definition drive_letters :: "nat set" where
  "drive_letters = {0x61..0x7A} \<union> {0x41..0x5A}"

definition split_extended_path :: "pystr \<Rightarrow> pystr \<times> pystr" where
  "split_extended_path s =
     (if take 4 s = [bslash, bslash, 0x3F, bslash] then
        (let prefix = take 4 s; s = drop 4 s in
         if take 4 s = [0x55, 0x4E, 0x43, bslash] then (prefix @ take 3 s, bslash # drop 3 s)
         else (prefix, s))
      else ([], s))"

definition splitroot_windows :: "pystr \<Rightarrow> pystr \<times> pystr \<times> pystr" where
  "splitroot_windows part0 =
     (let (prefix, part) =
            (if take 1 (drop 1 part0) = [bslash] \<and> take 1 part0 = [bslash]
             then split_extended_path part0 else ([], part0));
          first = take 1 part;
          second = take 1 (drop 1 part);
          third = take 1 (drop 2 part);
          unc =
            (if second = [bslash] \<and> first = [bslash] \<and> third \<noteq> [bslash] then
               (case find_from bslash 2 part of
                  None \<Rightarrow> None
                | Some index \<Rightarrow>
                    (let index2 = find_from bslash (index + 1) part in
                     if index2 \<noteq> Some (index + 1) then
                       (let index2 = (case index2 of None \<Rightarrow> length part | Some i \<Rightarrow> i) in
                        if prefix \<noteq> []
                        then Some (prefix @ take (index2 - 1) (drop 1 part), [bslash],
                                   drop (index2 + 1) part)
                        else Some (take index2 part, [bslash], drop (index2 + 1) part))
                     else None))
             else None)
      in case unc of
           Some r \<Rightarrow> r
         | None \<Rightarrow>
             (let (drv, part, first) =
                    (if second = [colon] \<and> first \<noteq> [] \<and> hd first \<in> drive_letters
                     then (take 2 part, drop 2 part, third) else ([], part, first));
                  (root, part) =
                    (if first = [bslash] then (first, lstrip bslash part) else ([], part))
              in (prefix @ drv, root, part)))"

fun splitroot :: "flavour \<Rightarrow> pystr \<Rightarrow> pystr \<times> pystr \<times> pystr" where
  "splitroot Posix part = splitroot_posix part"
| "splitroot Windows part = splitroot_windows part"

text \<open>
  \<open>parse_parts\<close> for the one-element argument list of \<open>Path(file_path)\<close>: the loop
  over the reversed arguments runs once, and there is no earlier argument to take a
  drive from.
\<close>

definition parse_parts :: "flavour \<Rightarrow> pystr \<Rightarrow> pystr \<times> pystr \<times> pystr list" where
  "parse_parts fl part0 =
     (if part0 = [] then ([], [], [])
      else
        (let part = (case altsep fl of None \<Rightarrow> part0
                     | Some a \<Rightarrow> replace a (sep fl) part0);
             (drv, root, rel) = splitroot fl part;
             parsed =
               (if sep fl \<in> set rel
                then filter (\<lambda>x. x \<noteq> [] \<and> x \<noteq> [dot]) (rev (str_split (sep fl) rel))
                else if rel \<noteq> [] \<and> rel \<noteq> [dot] then [rel] else []);
             parsed = (if drv \<noteq> [] \<or> root \<noteq> [] then parsed @ [drv @ root] else parsed)
         in (drv, root, rev parsed)))"

definition name :: "pystr \<times> pystr \<times> pystr list \<Rightarrow> pystr" where
  "name p =
     (case p of (drv, root, parts) \<Rightarrow>
        if length parts = (if drv \<noteq> [] \<or> root \<noteq> [] then 1 else 0) then []
        else last parts)"

section \<open>Python values and exceptions\<close>

text \<open>
  The objects \<open>json.loads\<close> returns. Of a float the program observes only whether
  it is zero (\<open>0.0\<close> and \<open>-0.0\<close> are falsy, every other float is truthy), so a
  float is represented by that. A dict is the list of its items, looked up with
  \<open>map_of\<close>.
\<close>

datatype float_value = FloatZero | FloatNonZero

datatype pyobj =
    PyNone
  | PyBool bool
  | PyInt int
  | PyFloat float_value
  | PyStr pystr
  | PyList "pyobj list"
  | PyDict "(pystr \<times> pyobj) list"

fun truthy :: "pyobj \<Rightarrow> bool" where
  "truthy PyNone = False"
| "truthy (PyBool b) = b"
| "truthy (PyInt i) = (i \<noteq> 0)"
| "truthy (PyFloat f) = (f \<noteq> FloatZero)"
| "truthy (PyStr s) = (s \<noteq> [])"
| "truthy (PyList xs) = (xs \<noteq> [])"
| "truthy (PyDict kvs) = (kvs \<noteq> [])"

fun type_name :: "pyobj \<Rightarrow> string" where
  "type_name PyNone = ''NoneType''"
| "type_name (PyBool b) = ''bool''"
| "type_name (PyInt i) = ''int''"
| "type_name (PyFloat f) = ''float''"
| "type_name (PyStr s) = ''str''"
| "type_name (PyList xs) = ''list''"
| "type_name (PyDict kvs) = ''dict''"

text \<open>
  An exception is its class and the text \<open>str(e)\<close>. The messages of the exceptions
  that occur here are ASCII in CPython, so the text is an Isabelle string.
  \<open>OtherException\<close> stands for any other subclass of \<open>Exception\<close> that the
  library may raise (\<open>RecursionError\<close> or \<open>ValueError\<close> from \<open>json.loads\<close>).
\<close>

datatype exc_class =
    UnicodeDecodeError | UnicodeEncodeError | JSONDecodeError
  | AttributeError | TypeError | OtherException

datatype py_exc = Exc exc_class string

fun class_of :: "py_exc \<Rightarrow> exc_class" where
  "class_of (Exc c m) = c"

fun str_exc :: "py_exc \<Rightarrow> pystr" where
  "str_exc (Exc c m) = py m"

abbreviation quote :: char where "quote \<equiv> CHR 0x27"

section \<open>The classifier\<close>

text \<open>
  \<open>Path(file_path)\<close> raises \<open>TypeError\<close> for an argument that is not a string
  (\<open>os.fspath\<close>); for a string it parses the path.
\<close>

definition Path :: "flavour \<Rightarrow> pyobj \<Rightarrow> py_exc + (pystr \<times> pystr \<times> pystr list)" where
  "Path fl a =
     (case a of
        PyStr s \<Rightarrow> Inr (parse_parts fl s)
      | _ \<Rightarrow> Inl (Exc TypeError
                 (''expected str, bytes or os.PathLike object, not '' @ type_name a)))"

definition get_filename_from_path :: "flavour \<Rightarrow> pyobj \<Rightarrow> py_exc + pystr" where
  "get_filename_from_path fl file_path =
     (if \<not> truthy file_path then Inr []
      else case Path fl file_path of
             Inl e \<Rightarrow> Inl e
           | Inr path_obj \<Rightarrow> Inr (name path_obj))"

text \<open>
  The loop of \<open>is_sensitive_file\<close> over a list of file names; the program runs it
  over \<open>SENSITIVE_FILES\<close>.
\<close>

fun sensitive_loop :: "pystr \<Rightarrow> pystr list \<Rightarrow> bool" where
  "sensitive_loop filename_lower [] = False"
| "sensitive_loop filename_lower (sensitive_file # files) =
     (if filename_lower = lower sensitive_file then True
      else sensitive_loop filename_lower files)"

definition is_sensitive_file_in :: "pystr list \<Rightarrow> pystr \<Rightarrow> bool" where
  "is_sensitive_file_in files filename =
     (if filename = [] then False
      else (let filename_lower = lower filename in sensitive_loop filename_lower files))"

definition is_sensitive_file :: "pystr \<Rightarrow> bool" where
  "is_sensitive_file filename = is_sensitive_file_in SENSITIVE_FILES filename"

text \<open>
  The spec's \<open>classify\<close>: \<open>is_sensitive_file\<close> after \<open>get_filename_from_path\<close>, on a
  path string. \<open>classify_in\<close> is the same over another denylist.
\<close>

definition classify_in :: "pystr list \<Rightarrow> flavour \<Rightarrow> pystr \<Rightarrow> bool" where
  "classify_in files fl file_path =
     (case get_filename_from_path fl (PyStr file_path) of
        Inl e \<Rightarrow> False
      | Inr filename \<Rightarrow> is_sensitive_file_in files filename)"

definition classify :: "flavour \<Rightarrow> pystr \<Rightarrow> bool" where
  "classify fl file_path = classify_in SENSITIVE_FILES fl file_path"

text \<open>The denylist without its four entries that contain a path separator.\<close>

definition SENSITIVE_FILES_without_paths :: "pystr list" where
  "SENSITIVE_FILES_without_paths =
     filter (\<lambda>f. f \<notin> set [py ''.ssh/id_rsa'', py ''.ssh/id_rsa.pub'',
                           py ''.aws/credentials'', py ''.aws/config''])
       SENSITIVE_FILES"

text \<open>
  Case-insensitive membership in the denylist as the spec words it: equality after
  lowercasing both sides.
\<close>

definition ci_member :: "pystr \<Rightarrow> bool" where
  "ci_member x = (lower x \<in> set (map lower SENSITIVE_FILES))"

text \<open>A path that starts with two separators (a UNC or device path on Windows).\<close>

fun double_sep :: "pystr \<Rightarrow> bool" where
  "double_sep (a # b # s) = ((a = slash \<or> a = bslash) \<and> (b = slash \<or> b = bslash))"
| "double_sep s = False"

section \<open>Writing the decision\<close>

type_synonym byte = "8 word"

record result =
  permission :: pystr
  user_message :: "pystr option"

text \<open>
  \<open>json.dumps(result, ensure_ascii=False)\<close> for a dict with the key
  \<open>permission\<close> and possibly \<open>user_message\<close>, in insertion order. A string is
  quoted; the double quote, the backslash and the control characters are escaped,
  every other code point is kept.
\<close>

definition hexdigit :: "nat \<Rightarrow> char" where
  "hexdigit n = ''0123456789abcdef'' ! (n mod 16)"

definition hex4 :: "nat \<Rightarrow> string" where
  "hex4 c = map hexdigit [c div 4096, c div 256, c div 16, c]"

definition escape_char :: "nat \<Rightarrow> pystr" where
  "escape_char c =
     (if c = 0x22 then [bslash, 0x22]
      else if c = bslash then [bslash, bslash]
      else if c = 0x0A then [bslash, 0x6E]
      else if c = 0x0D then [bslash, 0x72]
      else if c = 0x09 then [bslash, 0x74]
      else if c = 0x08 then [bslash, 0x62]
      else if c = 0x0C then [bslash, 0x66]
      else if c < 0x20 then [bslash, 0x75] @ py (hex4 c)
      else [c])"

definition encode_basestring :: "pystr \<Rightarrow> pystr" where
  "encode_basestring s = [0x22] @ concat (map escape_char s) @ [0x22]"

definition json_dumps :: "result \<Rightarrow> pystr" where
  "json_dumps r =
     py ''{'' @ encode_basestring (py ''permission'') @ py '': ''
       @ encode_basestring (permission r)
       @ (case user_message r of
            None \<Rightarrow> []
          | Some m \<Rightarrow> py '', '' @ encode_basestring (py ''user_message'') @ py '': ''
                        @ encode_basestring m)
       @ py ''}''"

text \<open>
  \<open>str.encode('utf-8')\<close>: a lone surrogate cannot be encoded and raises
  \<open>UnicodeEncodeError\<close>, which reports the first run of surrogates.
\<close>

definition surrogate :: "nat \<Rightarrow> bool" where
  "surrogate c = (0xD800 \<le> c \<and> c \<le> 0xDFFF)"

definition utf8_char :: "nat \<Rightarrow> byte list" where
  "utf8_char c =
     (if c < 0x80 then [of_nat c]
      else if c < 0x800 then [of_nat (0xC0 + c div 64), of_nat (0x80 + c mod 64)]
      else if c < 0x10000 then
        [of_nat (0xE0 + c div 4096), of_nat (0x80 + c div 64 mod 64), of_nat (0x80 + c mod 64)]
      else
        [of_nat (0xF0 + c div 262144), of_nat (0x80 + c div 4096 mod 64),
         of_nat (0x80 + c div 64 mod 64), of_nat (0x80 + c mod 64)])"

fun show_nat :: "nat \<Rightarrow> string" where
  "show_nat n =
     (if n < 10 then [hexdigit n] else show_nat (n div 10) @ [hexdigit (n mod 10)])"

definition encode_error :: "nat \<Rightarrow> pystr \<Rightarrow> py_exc" where
  "encode_error start bad =
     Exc UnicodeEncodeError
       ([quote] @ ''utf-8'' @ [quote] @ '' codec can'' @ [quote] @ ''t encode ''
        @ (if length bad = 1
           then ''character '' @ [quote, CHR 0x5C] @ ''u'' @ hex4 (hd bad) @ [quote]
                @ '' in position '' @ show_nat start
           else ''characters in position '' @ show_nat start @ ''-''
                @ show_nat (start + length bad - 1))
        @ '': surrogates not allowed'')"

definition encode_utf8 :: "pystr \<Rightarrow> py_exc + byte list" where
  "encode_utf8 s =
     (let good = takeWhile (\<lambda>c. \<not> surrogate c) s;
          bad = takeWhile surrogate (drop (length good) s)
      in if bad = [] then Inr (concat (map utf8_char s))
         else Inl (encode_error (length good) bad))"

section \<open>The process\<close>

text \<open>
  The process reads its standard input to the end and appends to its standard output;
  reading and writing the streams themselves do not fail in the model. Decoding the
  input and parsing it are the library's; they are parameters of the model, each
  returning its value or the exception it raises.
\<close>

record process =
  stdin :: "byte list"
  stdout :: "byte list"

record runtime =
  decode_utf8 :: "byte list \<Rightarrow> py_exc + pystr"
  json_loads :: "pystr \<Rightarrow> py_exc + pyobj"

text \<open>
  The three lines that end every branch: \<open>json.dumps\<close>, \<open>encode\<close>, then \<open>write\<close> and
  \<open>flush\<close>. Nothing is written when the encoding raises.
\<close>

definition write_result :: "result \<Rightarrow> 'a process_scheme \<Rightarrow> py_exc + 'a process_scheme" where
  "write_result r p =
     (let output = json_dumps r in
      case encode_utf8 output of
        Inl e \<Rightarrow> Inl e
      | Inr bs \<Rightarrow> Inr (p\<lparr>stdout := stdout p @ bs\<rparr>))"

text \<open>\<open>data.get("file_path", "")\<close>: only a dict has the method.\<close>

definition data_get :: "pyobj \<Rightarrow> pystr \<Rightarrow> pyobj \<Rightarrow> py_exc + pyobj" where
  "data_get data key dflt =
     (case data of
        PyDict kvs \<Rightarrow> Inr (case map_of kvs key of None \<Rightarrow> dflt | Some v \<Rightarrow> v)
      | _ \<Rightarrow> Inl (Exc AttributeError
                 ([quote] @ type_name data @ [quote] @ '' object has no attribute ''
                  @ [quote] @ ''get'' @ [quote])))"

definition json_error_prefix :: pystr where
  "json_error_prefix = py ''JSON '' @ [0x89E3, 0x6790, 0x932F, 0x8AA4] @ py '': ''"

definition error_prefix :: pystr where
  "error_prefix =
     [0x6AA2, 0x67E5, 0x904E, 0x7A0B, 0x4E2D, 0x767C, 0x751F, 0x932F, 0x8AA4] @ py '': ''"

definition deny_message :: "pystr \<Rightarrow> pystr" where
  "deny_message filename =
     [0x7121, 0x6CD5, 0x8B80, 0x53D6, 0x654F, 0x611F, 0x6A94, 0x6848, 0xFF1A] @ filename
     @ [0x3002, 0x6B64, 0x6A94, 0x6848, 0x5305, 0x542B, 0x654F, 0x611F, 0x8CC7, 0x8A0A,
        0xFF0C, 0x70BA, 0x4FDD, 0x8B77, 0x60A8, 0x7684, 0x8CC7, 0x6599, 0x5B89, 0x5168,
        0xFF0C, 0x5DF2, 0x963B, 0x6B62, 0x8B80, 0x53D6, 0x3002]"

text \<open>The body of the outer \<open>try\<close>, after the input has been read.\<close>

definition try_body ::
  "flavour \<Rightarrow> runtime \<Rightarrow> byte list \<Rightarrow> 'a process_scheme \<Rightarrow> py_exc + 'a process_scheme" where
  "try_body fl rt raw p =
     (case decode_utf8 rt raw of
        Inl e \<Rightarrow> Inl e
      | Inr input_data \<Rightarrow>
          (case json_loads rt input_data of
             Inl e \<Rightarrow>
               (if class_of e = JSONDecodeError then
                  write_result \<lparr>permission = py ''allow'',
                                user_message = Some (json_error_prefix @ str_exc e)\<rparr> p
                else Inl e)
           | Inr data \<Rightarrow>
               (case data_get data (py ''file_path'') (PyStr []) of
                  Inl e \<Rightarrow> Inl e
                | Inr file_path \<Rightarrow>
                    (if \<not> truthy file_path then
                       write_result \<lparr>permission = py ''allow'', user_message = None\<rparr> p
                     else
                       (case get_filename_from_path fl file_path of
                          Inl e \<Rightarrow> Inl e
                        | Inr filename \<Rightarrow>
                            (let result =
                                   (if is_sensitive_file filename then
                                      \<lparr>permission = py ''deny'',
                                       user_message = Some (deny_message filename)\<rparr>
                                    else \<lparr>permission = py ''allow'', user_message = None\<rparr>)
                             in write_result result p))))))"

text \<open>
  \<open>main\<close>: the outer handler turns every exception of the body into an \<open>allow\<close>
  with a diagnostic. The first component is the exception that leaves \<open>main\<close>, if
  any; the interpreter exits with status 1 on one and with 0 otherwise.
\<close>

definition main ::
  "flavour \<Rightarrow> runtime \<Rightarrow> 'a process_scheme \<Rightarrow> py_exc option \<times> 'a process_scheme" where
  "main fl rt p0 =
     (let raw = stdin p0; p = p0\<lparr>stdin := []\<rparr> in
      case try_body fl rt raw p of
        Inr p' \<Rightarrow> (None, p')
      | Inl e \<Rightarrow>
          (case write_result \<lparr>permission = py ''allow'',
                              user_message = Some (error_prefix @ str_exc e)\<rparr> p of
             Inr p' \<Rightarrow> (None, p')
           | Inl e' \<Rightarrow> (Some e', p)))"


text \<open>
  \<open>emits fl rt p r\<close>: \<open>main\<close> returns normally, having consumed the input and
  written exactly the JSON document of the dict \<open>r\<close>.
\<close>

definition emits :: "flavour \<Rightarrow> runtime \<Rightarrow> 'a process_scheme \<Rightarrow> result \<Rightarrow> bool" where
  "emits fl rt p r =
     (case encode_utf8 (json_dumps r) of
        Inl e \<Rightarrow> False
      | Inr bs \<Rightarrow> main fl rt p = (None, p\<lparr>stdin := [], stdout := stdout p @ bs\<rparr>))"

text \<open>The bytes a run has added to the standard output.\<close>

definition written :: "'a process_scheme \<Rightarrow> py_exc option \<times> 'a process_scheme \<Rightarrow> byte list" where
  "written p r = drop (length (stdout p)) (stdout (snd r))"


section \<open>A runtime for the end-to-end scenarios\<close>

text \<open>
  The theorems below hold for every runtime. To run \<open>main\<close> on concrete inputs, this
  runtime returns what CPython 3.11 returns on the inputs of the spec's end-to-end
  scenarios (ASCII documents and the single byte 0xFF); every text it does not list
  is answered like \<open>not valid json\<close>.
\<close>

definition ascii_bytes :: "string \<Rightarrow> byte list" where
  "ascii_bytes s = map of_char s"

definition json_file_path :: "string \<Rightarrow> string" where
  "json_file_path v = ''{'' @ [CHR 0x22] @ ''file_path'' @ [CHR 0x22] @ '': '' @ v @ ''}''"

definition json_quoted :: "string \<Rightarrow> string" where
  "json_quoted s = [CHR 0x22] @ s @ [CHR 0x22]"

definition scenario_decode :: "byte list \<Rightarrow> py_exc + pystr" where
  "scenario_decode raw =
     (if raw = [0xFF] then
        Inl (Exc UnicodeDecodeError
               ([quote] @ ''utf-8'' @ [quote] @ '' codec can'' @ [quote]
                @ ''t decode byte 0xff in position 0: invalid start byte''))
      else Inr (map unat raw))"

definition scenario_loads :: "pystr \<Rightarrow> py_exc + pyobj" where
  "scenario_loads text =
     (if text = py (json_file_path (json_quoted ''/home/user/.env'')) then
        Inr (PyDict [(py ''file_path'', PyStr (py ''/home/user/.env''))])
      else if text = py (json_file_path (json_quoted ''/home/user/notes.txt'')) then
        Inr (PyDict [(py ''file_path'', PyStr (py ''/home/user/notes.txt''))])
      else if text = py (json_file_path (json_quoted ''/home/user/.aws/credentials'')) then
        Inr (PyDict [(py ''file_path'', PyStr (py ''/home/user/.aws/credentials''))])
      else if text = py (json_file_path ''123'') then
        Inr (PyDict [(py ''file_path'', PyInt 123)])
      else if text = py (json_file_path ''0'') then
        Inr (PyDict [(py ''file_path'', PyInt 0)])
      else if text = py ''{}'' then Inr (PyDict [])
      else if text = py ''[1]'' then Inr (PyList [PyInt 1])
      else Inl (Exc JSONDecodeError ''Expecting value: line 1 column 1 (char 0)''))"

definition scenario_runtime :: runtime where
  "scenario_runtime = \<lparr>decode_utf8 = scenario_decode, json_loads = scenario_loads\<rparr>"

definition scenario :: "string \<Rightarrow> process" where
  "scenario doc = \<lparr>stdin = ascii_bytes doc, stdout = []\<rparr>"

section \<open>Auxiliary notions for the proofs\<close>

text \<open>Code points that \<open>lower\<close> maps to themselves in every context.\<close>

definition unchanged :: "nat \<Rightarrow> bool" where
  "unchanged c =
     (c < 0x41 \<or> (0x5A < c \<and> c < 0xC0) \<or> (0x2CF3 \<le> c \<and> c < 0xA640)
      \<or> (0xD800 \<le> c \<and> c \<le> 0xDFFF))"

text \<open>
  The last component of \<open>rel.split(c)\<close> that is neither empty nor \<open>.\<close>, the empty
  string when there is none.
\<close>

definition final_component :: "nat \<Rightarrow> pystr \<Rightarrow> pystr" where
  "final_component c rel =
     (case filter (\<lambda>x. x \<noteq> [] \<and> x \<noteq> [dot]) (rev (str_split c rel)) of
        [] \<Rightarrow> []
      | x # xs \<Rightarrow> x)"

text \<open>A path without its drive letter and colon, if it has them.\<close>

definition strip_drive :: "pystr \<Rightarrow> pystr" where
  "strip_drive part =
     (if take 1 (drop 1 part) = [colon] \<and> part \<noteq> [] \<and> hd part \<in> drive_letters
      then drop 2 part else part)"

text \<open>
  What the body of the \<open>try\<close> passes to its final \<open>json.dumps\<close>, or the exception
  raised before; \<open>decision\<close> is then the dict whose document the run writes, the
  handler's dict in the case of an exception.
\<close>

definition body_result :: "flavour \<Rightarrow> runtime \<Rightarrow> byte list \<Rightarrow> py_exc + result" where
  "body_result fl rt raw =
     (case decode_utf8 rt raw of
        Inl e \<Rightarrow> Inl e
      | Inr input_data \<Rightarrow>
          (case json_loads rt input_data of
             Inl e \<Rightarrow>
               (if class_of e = JSONDecodeError then
                  Inr \<lparr>permission = py ''allow'',
                       user_message = Some (json_error_prefix @ str_exc e)\<rparr>
                else Inl e)
           | Inr data \<Rightarrow>
               (case data_get data (py ''file_path'') (PyStr []) of
                  Inl e \<Rightarrow> Inl e
                | Inr file_path \<Rightarrow>
                    (if \<not> truthy file_path then
                       Inr \<lparr>permission = py ''allow'', user_message = None\<rparr>
                     else
                       (case get_filename_from_path fl file_path of
                          Inl e \<Rightarrow> Inl e
                        | Inr filename \<Rightarrow>
                            (if is_sensitive_file filename then
                               Inr \<lparr>permission = py ''deny'',
                                    user_message = Some (deny_message filename)\<rparr>
                             else Inr \<lparr>permission = py ''allow'', user_message = None\<rparr>))))))"

definition fault_result :: "py_exc \<Rightarrow> result" where
  "fault_result e =
     \<lparr>permission = py ''allow'', user_message = Some (error_prefix @ str_exc e)\<rparr>"

definition decision :: "flavour \<Rightarrow> runtime \<Rightarrow> byte list \<Rightarrow> result" where
  "decision fl rt raw =
     (case body_result fl rt raw of Inl e \<Rightarrow> fault_result e | Inr r \<Rightarrow> r)"

definition document :: "result \<Rightarrow> byte list" where
  "document r = concat (map utf8_char (json_dumps r))"



section \<open>Facts about \<open>lower\<close>\<close>

lemma lookup_low: "c < 0xC0 \<Longrightarrow> lookup_run c lower_runs = (if 0x41 \<le> c \<and> c \<le> 0x5A then Some (c + 0x20) else None)"
  unfolding lower_runs_def by (simp only: lookup_run.simps) auto

lemma to_lower_full_low:
  "c < 0xC0 \<Longrightarrow> to_lower_full c = [if 0x41 \<le> c \<and> c \<le> 0x5A then c + 0x20 else c]"
  by (simp add: to_lower_full_def lookup_low)

lemma lookup_run_outside:
  "list_all (\<lambda>(lo, hi, st, t). c < lo \<or> hi < c) rs \<Longrightarrow> lookup_run c rs = None"
  by (induction rs) auto

lemma lookup_run_target:
  "lookup_run c rs = Some x \<Longrightarrow> list_all (\<lambda>(lo, hi, st, t). m \<le> t) rs \<Longrightarrow> m \<le> x"
  by (induction rs) (auto split: if_splits)

lemma lower_runs_targets: "list_all (\<lambda>(lo, hi, st, t). 0x61 \<le> t) lower_runs"
  by (simp add: lower_runs_def)

lemma lower_runs_gap:
  "0x2CF3 \<le> c \<Longrightarrow> c < 0xA640 \<Longrightarrow> list_all (\<lambda>(lo, hi, st, t). c < lo \<or> hi < c) lower_runs"
  by (simp add: lower_runs_def)

lemma lower_runs_surrogates:
  "0xD800 \<le> c \<Longrightarrow> c \<le> 0xDFFF \<Longrightarrow> list_all (\<lambda>(lo, hi, st, t). c < lo \<or> hi < c) lower_runs"
  by (simp add: lower_runs_def)

lemma unchanged_lower: "unchanged c \<Longrightarrow> lower_ucs4 prev c rest = [c]"
  unfolding unchanged_def lower_ucs4_def
  by (auto simp add: to_lower_full_low) (simp_all add: to_lower_full_def lookup_run_outside lower_runs_gap lower_runs_surrogates)

lemma do_lower_unchanged: "list_all unchanged s \<Longrightarrow> do_lower prev s = s"
  by (induction s arbitrary: prev) (simp_all add: unchanged_lower)

lemma lower_unchanged: "list_all unchanged s \<Longrightarrow> lower s = s"
  by (simp add: lower_def do_lower_unchanged)

lemma do_lower_keeps: "c \<in> set s \<Longrightarrow> unchanged c \<Longrightarrow> c \<in> set (do_lower prev s)"
  by (induction s arbitrary: prev) (auto simp add: unchanged_lower)

lemma lower_keeps: "c \<in> set s \<Longrightarrow> unchanged c \<Longrightarrow> c \<in> set (lower s)"
  by (simp add: lower_def do_lower_keeps)

lemma lower_ucs4_new: "x \<in> set (lower_ucs4 prev c rest) \<Longrightarrow> x = c \<or> 0x61 \<le> x"
  unfolding lower_ucs4_def to_lower_full_def handle_capital_sigma_def
  using lookup_run_target [OF _ lower_runs_targets, of c]
  by (auto simp add: Let_def split: if_splits option.splits)

lemma do_lower_new: "x \<in> set (do_lower prev s) \<Longrightarrow> x \<in> set s \<or> 0x61 \<le> x"
  by (induction s arbitrary: prev) (auto dest: lower_ucs4_new)

lemma lower_new: "x \<in> set (lower s) \<Longrightarrow> x \<in> set s \<or> 0x61 \<le> x"
  by (simp add: lower_def do_lower_new)

lemma lower_Nil: "lower [] = []"
  by (simp add: lower_def)

lemma lower_SENSITIVE_FILES: "map lower SENSITIVE_FILES = SENSITIVE_FILES"
  by (simp add: SENSITIVE_FILES_def py_def lower_unchanged unchanged_def)


section \<open>Facts about the classifier\<close>

lemma sensitive_loop_iff: "sensitive_loop x files = (x \<in> set (map lower files))"
  by (induction files) auto

lemma ci_member_Nil: "\<not> ci_member []"
  by (simp add: ci_member_def lower_SENSITIVE_FILES lower_Nil) (simp add: SENSITIVE_FILES_def py_def)

lemma is_sensitive_file_iff: "is_sensitive_file f = ci_member f"
  using ci_member_Nil
  by (auto simp add: is_sensitive_file_def is_sensitive_file_in_def sensitive_loop_iff ci_member_def)

lemma get_filename_str: "get_filename_from_path fl (PyStr s) = Inr (name (parse_parts fl s))"
  by (simp add: get_filename_from_path_def Path_def parse_parts_def name_def)

lemma classify_in_eq: "classify_in files fl p = is_sensitive_file_in files (name (parse_parts fl p))"
  by (simp add: classify_in_def get_filename_str)

lemma classify_eq: "classify fl p = ci_member (name (parse_parts fl p))"
  by (simp add: classify_def classify_in_eq is_sensitive_file_iff [unfolded is_sensitive_file_def])

section \<open>Facts about the final path component\<close>

lemma str_split_not_Nil: "str_split c s \<noteq> []"
  by (induction s) (auto split: list.splits)

lemma str_split_no_sep: "c \<notin> set s \<Longrightarrow> str_split c s = [s]"
  by (induction s) auto

lemma str_split_append: "str_split c (x @ c # y) = str_split c x @ str_split c y"
  by (induction x) (auto simp add: str_split_not_Nil split: list.splits)

lemma str_split_sets: "\<forall>x \<in> set (str_split c s). c \<notin> set x \<and> set x \<subseteq> set s"
proof (induction s)
  case Nil
  then show ?case by simp
next
  case (Cons a s)
  obtain y ys where "str_split c s = y # ys"
    using str_split_not_Nil [of c s] by (cases "str_split c s") auto
  with Cons show ?case by auto
qed

lemma final_component_sets: "c \<notin> set (final_component c s) \<and> set (final_component c s) \<subseteq> set s"
proof -
  let ?xs = "filter (\<lambda>x. x \<noteq> [] \<and> x \<noteq> [dot]) (rev (str_split c s))"
  show ?thesis
  proof (cases ?xs)
    case Nil
    then show ?thesis by (simp add: final_component_def)
  next
    case (Cons x xs)
    then have "x \<in> set ?xs" by simp
    then have "x \<in> set (str_split c s)" by simp
    with Cons show ?thesis using str_split_sets [of c s] by (auto simp add: final_component_def)
  qed
qed

lemma final_component_Cons_sep: "final_component c (c # s) = final_component c s"
  by (simp add: final_component_def)

lemma final_component_lstrip: "final_component c (lstrip c s) = final_component c s"
  by (induction s) (auto simp add: lstrip_def final_component_Cons_sep)

lemma final_component_snoc_sep: "final_component c (s @ [c]) = final_component c s"
  using str_split_append [of c s "[]"] by (simp add: final_component_def)

lemma final_component_base:
  "b \<noteq> [] \<Longrightarrow> b \<noteq> [dot] \<Longrightarrow> c \<notin> set b \<Longrightarrow> final_component c b = b"
  by (simp add: final_component_def str_split_no_sep)

lemma final_component_prefix:
  "b \<noteq> [] \<Longrightarrow> b \<noteq> [dot] \<Longrightarrow> c \<notin> set b \<Longrightarrow> final_component c (d @ c # b) = b"
  by (simp add: final_component_def str_split_append str_split_no_sep)

lemma name_of_rel:
  assumes "parsed = (if c \<in> set rel
            then filter (\<lambda>x. x \<noteq> [] \<and> x \<noteq> [dot]) (rev (str_split c rel))
            else if rel \<noteq> [] \<and> rel \<noteq> [dot] then [rel] else [])"
    and "parts = rev (if drv \<noteq> [] \<or> root \<noteq> [] then parsed @ [drv @ root] else parsed)"
  shows "name (drv, root, parts) = final_component c rel"
proof -
  have p: "parsed = filter (\<lambda>x. x \<noteq> [] \<and> x \<noteq> [dot]) (rev (str_split c rel))"
    using assms(1) by (auto simp add: str_split_no_sep)
  show ?thesis
  proof (cases "filter (\<lambda>x. x \<noteq> [] \<and> x \<noteq> [dot]) (rev (str_split c rel))")
    case Nil
    with p assms(2) show ?thesis
      by (simp add: name_def final_component_def)
  next
    case (Cons x xs)
    with p assms(2) show ?thesis
      by (simp add: name_def final_component_def)
  qed
qed

lemma name_parse_parts:
  assumes "s \<noteq> []"
    and "splitroot fl (case altsep fl of None \<Rightarrow> s | Some a \<Rightarrow> replace a (sep fl) s) = (drv, root, rel)"
  shows "name (parse_parts fl s) = final_component (sep fl) rel"
proof -
  have "parse_parts fl s =
      (drv, root,
       rev (if drv \<noteq> [] \<or> root \<noteq> []
            then (if sep fl \<in> set rel
                  then filter (\<lambda>x. x \<noteq> [] \<and> x \<noteq> [dot]) (rev (str_split (sep fl) rel))
                  else if rel \<noteq> [] \<and> rel \<noteq> [dot] then [rel] else []) @ [drv @ root]
            else (if sep fl \<in> set rel
                  then filter (\<lambda>x. x \<noteq> [] \<and> x \<noteq> [dot]) (rev (str_split (sep fl) rel))
                  else if rel \<noteq> [] \<and> rel \<noteq> [dot] then [rel] else [])))"
    using assms unfolding parse_parts_def Let_def by (simp only: if_False prod.case)
  then show ?thesis
    using name_of_rel [OF refl refl, of drv root "sep fl" rel] by (simp only:)
qed

lemma name_posix: "name (parse_parts Posix s) = final_component slash s"
proof (cases "s = []")
  case True
  then show ?thesis by (simp add: parse_parts_def name_def final_component_def)
next
  case False
  obtain drv root rel where sr: "splitroot Posix s = (drv, root, rel)"
    by (cases "splitroot Posix s") auto
  then have "final_component slash rel = final_component slash s"
    by (auto simp add: splitroot_posix_def Let_def final_component_lstrip split: if_splits)
  then show ?thesis
    using name_parse_parts [OF False, of Posix drv root rel] sr by simp
qed

lemma replace_no_old: "old \<noteq> new \<Longrightarrow> old \<notin> set (replace old new s)"
  by (auto simp add: replace_def)

lemma replace_id: "old \<notin> set s \<Longrightarrow> replace old new s = s"
  by (induction s) (auto simp add: replace_def)

lemma replace_append: "replace old new (x @ y) = replace old new x @ replace old new y"
  by (simp add: replace_def)

lemma split_extended_path_set:
  "split_extended_path s = (prefix, s') \<Longrightarrow> set s' \<subseteq> insert bslash (set s)"
  by (auto simp add: split_extended_path_def Let_def split: if_splits dest: in_set_dropD)

lemma lstrip_set: "set (lstrip c s) \<subseteq> set s"
  by (auto simp add: lstrip_def dest: set_dropWhileD)

lemma splitroot_windows_set:
  assumes "splitroot_windows part0 = (drv, root, rel)"
  shows "set rel \<subseteq> insert bslash (set part0)"
proof -
  obtain prefix part where pp: "(if take 1 (drop 1 part0) = [bslash] \<and> take 1 part0 = [bslash]
             then split_extended_path part0 else ([], part0)) = (prefix, part)"
    by (cases "(if take 1 (drop 1 part0) = [bslash] \<and> take 1 part0 = [bslash]
             then split_extended_path part0 else ([], part0))") auto
  then have sub: "set part \<subseteq> insert bslash (set part0)"
    using split_extended_path_set by (auto split: if_splits)
  have "set rel \<subseteq> set part"
    using assms lstrip_set [of bslash part] lstrip_set [of bslash "drop 2 part"]
    unfolding splitroot_windows_def pp Let_def
    by (auto simp add: split: if_splits option.splits prod.splits dest: in_set_dropD)
  with sub show ?thesis by blast
qed

lemma name_no_slash: "slash \<notin> set (name (parse_parts fl s))"
proof (cases "s = []")
  case True
  then show ?thesis by (simp add: parse_parts_def name_def)
next
  case False
  show ?thesis
  proof (cases fl)
    case Posix
    then show ?thesis using final_component_sets [of slash s] by (simp add: name_posix)
  next
    case Windows
    obtain drv root rel where sr: "splitroot_windows (replace slash bslash s) = (drv, root, rel)"
      by (cases "splitroot_windows (replace slash bslash s)") auto
    then have "name (parse_parts Windows s) = final_component bslash rel"
      using name_parse_parts [OF False, of Windows drv root rel] by simp
    moreover have "slash \<notin> set rel"
      using splitroot_windows_set [OF sr] replace_no_old [of slash bslash s] by auto
    ultimately show ?thesis
      using Windows final_component_sets [of bslash rel] by auto
  qed
qed

lemma double_sep_replace:
  "double_sep s =
     (take 1 (drop 1 (replace slash bslash s)) = [bslash] \<and> take 1 (replace slash bslash s) = [bslash])"
proof (cases s)
  case Nil
  then show ?thesis by (simp add: replace_def)
next
  case (Cons a t)
  then show ?thesis by (cases t) (auto simp add: replace_def)
qed

lemma splitroot_windows_plain:
  assumes "\<not> (take 1 (drop 1 part) = [bslash] \<and> take 1 part = [bslash])"
    and "splitroot_windows part = (drv, root, rel)"
  shows "final_component bslash rel = final_component bslash (strip_drive part)"
  using assms
  unfolding splitroot_windows_def strip_drive_def Let_def
  by (cases part) (auto simp add: final_component_lstrip split: if_splits)

lemma name_windows:
  assumes "\<not> double_sep s"
  shows "name (parse_parts Windows s) = final_component bslash (strip_drive (replace slash bslash s))"
proof (cases "s = []")
  case True
  then show ?thesis
    by (simp add: parse_parts_def name_def final_component_def strip_drive_def replace_def)
next
  case False
  obtain drv root rel where sr: "splitroot_windows (replace slash bslash s) = (drv, root, rel)"
    by (cases "splitroot_windows (replace slash bslash s)") auto
  then have "name (parse_parts Windows s) = final_component bslash rel"
    using name_parse_parts [OF False, of Windows drv root rel] by simp
  then show ?thesis
    using splitroot_windows_plain [OF _ sr] assms by (simp add: double_sep_replace)
qed

lemma name_plain:
  assumes "b \<noteq> []" "b \<noteq> [dot]" "slash \<notin> set b" "bslash \<notin> set b" "colon \<notin> set b"
  shows "name (parse_parts fl b) = b"
proof (cases fl)
  case Posix
  with assms show ?thesis by (simp add: name_posix final_component_base)
next
  case Windows
  have nd: "\<not> double_sep b"
    using assms by (cases b rule: double_sep.cases) auto
  have "strip_drive b = b"
    using assms by (cases b rule: double_sep.cases) (auto simp add: strip_drive_def)
  with Windows assms nd show ?thesis
    by (simp add: name_windows replace_id final_component_base)
qed

lemma name_prefixed_posix:
  assumes "b \<noteq> []" "b \<noteq> [dot]" "slash \<notin> set b"
  shows "name (parse_parts Posix (d @ slash # b)) = b"
  using assms by (simp add: name_posix final_component_prefix)

lemma name_prefixed_windows:
  assumes "b \<noteq> []" "b \<noteq> [dot]" "slash \<notin> set b" "bslash \<notin> set b" "colon \<notin> set b"
    and "s = slash \<or> s = bslash" and "\<not> double_sep (d @ s # b)"
  shows "name (parse_parts Windows (d @ s # b)) = b"
proof -
  let ?d = "replace slash bslash d"
  have r: "replace slash bslash (d @ s # b) = ?d @ bslash # b"
    using assms(3,6) replace_id [of slash b bslash] by (auto simp add: replace_def)
  have "final_component bslash (strip_drive (?d @ bslash # b)) = b"
  proof (cases ?d)
    case Nil
    have "strip_drive (bslash # b) = bslash # b"
      using assms(1,5) by (cases b) (auto simp add: strip_drive_def)
    with Nil assms(1,2,4) show ?thesis
      by (simp add: final_component_Cons_sep final_component_base)
  next
    case (Cons x t)
    show ?thesis
    proof (cases t)
      case Nil
      with Cons assms show ?thesis
        using final_component_prefix [of b bslash "[x]"] by (auto simp add: strip_drive_def)
    next
      case (Cons y u)
      with \<open>?d = x # t\<close> assms show ?thesis
        using final_component_prefix [of b bslash "x # y # u"] final_component_prefix [of b bslash u]
        by (auto simp add: strip_drive_def)
    qed
  qed
  with assms(7) r show ?thesis by (simp add: name_windows)
qed

lemma name_trailing_posix: "name (parse_parts Posix (p @ [slash])) = name (parse_parts Posix p)"
  by (simp add: name_posix final_component_snoc_sep)

lemma double_sep_prefix: "double_sep p \<Longrightarrow> double_sep (p @ q)"
  by (cases p rule: double_sep.cases) auto

lemma name_trailing_windows:
  assumes "s = slash \<or> s = bslash" and "\<not> double_sep (p @ [s])"
  shows "name (parse_parts Windows (p @ [s])) = name (parse_parts Windows p)"
proof -
  let ?p = "replace slash bslash p"
  have nd: "\<not> double_sep p" using assms(2) double_sep_prefix by blast
  have r: "replace slash bslash (p @ [s]) = ?p @ [bslash]"
    using assms(1) by (auto simp add: replace_def)
  have "final_component bslash (strip_drive (?p @ [bslash])) = final_component bslash (strip_drive ?p)"
  proof (cases ?p)
    case Nil
    then show ?thesis
      using final_component_snoc_sep [of bslash "[]"] by (simp add: strip_drive_def)
  next
    case (Cons x t)
    then show ?thesis
      using final_component_snoc_sep [of bslash "x # t"] final_component_snoc_sep [of bslash "tl t"]
      by (cases t) (auto simp add: strip_drive_def)
  qed
  with assms(2) nd r show ?thesis by (simp add: name_windows)
qed

lemma lower_no_slash: "slash \<notin> set s \<Longrightarrow> slash \<notin> set (lower s)"
  using lower_new [of slash s] by auto

lemma ci_member_chars:
  assumes "ci_member b" and "unchanged c" and "\<forall>f \<in> set SENSITIVE_FILES. c \<notin> set f"
  shows "c \<notin> set b"
proof
  assume "c \<in> set b"
  then have "c \<in> set (lower b)" using assms(2) by (rule lower_keeps)
  moreover have "lower b \<in> set SENSITIVE_FILES"
    using assms(1) by (simp add: ci_member_def lower_SENSITIVE_FILES)
  ultimately show False using assms(3) by blast
qed

lemma SENSITIVE_FILES_chars:
  "\<forall>f \<in> set SENSITIVE_FILES. bslash \<notin> set f \<and> colon \<notin> set f \<and> (\<forall>c \<in> set f. \<not> surrogate c)"
  by (simp add: SENSITIVE_FILES_def py_def surrogate_def)

lemma ci_member_shape:
  assumes "ci_member b"
  shows "b \<noteq> [] \<and> b \<noteq> [dot] \<and> bslash \<notin> set b \<and> colon \<notin> set b \<and> (\<forall>c \<in> set b. \<not> surrogate c)"
proof -
  have "b \<noteq> []" using assms ci_member_Nil by auto
  moreover have "\<not> ci_member [dot]"
    by (simp add: ci_member_def lower_SENSITIVE_FILES lower_unchanged unchanged_def)
       (simp add: SENSITIVE_FILES_def py_def)
  moreover have "bslash \<notin> set b"
    using ci_member_chars [OF assms, of bslash] SENSITIVE_FILES_chars by (simp add: unchanged_def)
  moreover have "colon \<notin> set b"
    using ci_member_chars [OF assms, of colon] SENSITIVE_FILES_chars by (simp add: unchanged_def)
  moreover have "\<not> surrogate c" if "c \<in> set b" for c
    using ci_member_chars [OF assms, of c] SENSITIVE_FILES_chars that
    by (auto simp add: unchanged_def surrogate_def)
  ultimately show ?thesis using assms by auto
qed


section \<open>Evaluation on concrete paths\<close>

lemma lower_ascii: "list_all (\<lambda>c. c < 0xC0) s \<Longrightarrow> lower s = map (\<lambda>c. if 0x41 \<le> c \<and> c \<le> 0x5A then c + 0x20 else c) s"
proof -
  have "list_all (\<lambda>c. c < 0xC0) s \<Longrightarrow> do_lower prev s = map (\<lambda>c. if 0x41 \<le> c \<and> c \<le> 0x5A then c + 0x20 else c) s" for prev
    by (induction s arbitrary: prev) (auto simp add: lower_ucs4_def to_lower_full_low)
  then show "list_all (\<lambda>c. c < 0xC0) s \<Longrightarrow> lower s = map (\<lambda>c. if 0x41 \<le> c \<and> c \<le> 0x5A then c + 0x20 else c) s"
    by (simp add: lower_def)
qed
lemma ci_member_iff: "ci_member x = (lower x \<in> set SENSITIVE_FILES)"
  by (simp add: ci_member_def lower_SENSITIVE_FILES)
lemmas path_eval = classify_eq name_posix name_windows final_component_def strip_drive_def
  drive_letters_def replace_def py_def
lemmas member_eval = ci_member_iff lower_ascii SENSITIVE_FILES_def py_def


section \<open>Facts about the process\<close>

lemma py_not_surrogate: "c \<in> set (py s) \<Longrightarrow> \<not> surrogate c"
proof -
  assume "c \<in> set (py s)"
  then obtain x where "c = of_char x" by (auto simp add: py_def)
  then have "c < 256" by simp
  then show ?thesis by (simp add: surrogate_def)
qed

lemma escape_char_surrogate: "x \<in> set (escape_char c) \<Longrightarrow> surrogate x \<Longrightarrow> x = c"
  by (auto simp add: escape_char_def surrogate_def split: if_splits dest: py_not_surrogate [unfolded surrogate_def])

lemma encode_basestring_surrogate:
  "x \<in> set (encode_basestring s) \<Longrightarrow> surrogate x \<Longrightarrow> x \<in> set s"
  by (auto simp add: encode_basestring_def surrogate_def dest: escape_char_surrogate [unfolded surrogate_def])

lemma encode_basestring_py: "x \<in> set (encode_basestring (py s)) \<Longrightarrow> \<not> surrogate x"
  using encode_basestring_surrogate py_not_surrogate by blast

lemma json_dumps_surrogate:
  assumes "x \<in> set (json_dumps r)" and "surrogate x"
  shows "x \<in> set (permission r) \<or> (\<exists>m. user_message r = Some m \<and> x \<in> set m)"
proof (cases "user_message r")
  case None
  with assms show ?thesis
    using encode_basestring_surrogate [of x] encode_basestring_py [of x] py_not_surrogate [of x]
    by (auto simp add: json_dumps_def)
next
  case (Some m)
  with assms show ?thesis
    using encode_basestring_surrogate [of x] encode_basestring_py [of x] py_not_surrogate [of x]
    by (auto simp add: json_dumps_def)
qed

lemma encode_utf8_ok:
  assumes "\<forall>c \<in> set s. \<not> surrogate c"
  shows "encode_utf8 s = Inr (concat (map utf8_char s))"
proof -
  have tw: "takeWhile (\<lambda>c. \<not> surrogate c) s = s"
    using assms by (simp add: takeWhile_eq_all_conv)
  show ?thesis unfolding encode_utf8_def Let_def tw by simp
qed

lemma write_result_ok:
  assumes "\<forall>c \<in> set (json_dumps r). \<not> surrogate c"
  shows "write_result r p = Inr (p\<lparr>stdout := stdout p @ document r\<rparr>)"
  using encode_utf8_ok [OF assms] by (simp add: write_result_def document_def)

lemma error_prefix_chars: "c \<in> set error_prefix \<Longrightarrow> \<not> surrogate c"
  using py_not_surrogate [of c "'': ''"] by (auto simp add: error_prefix_def surrogate_def)

lemma json_error_prefix_chars: "c \<in> set json_error_prefix \<Longrightarrow> \<not> surrogate c"
  using py_not_surrogate [of c "'': ''"] py_not_surrogate [of c "''JSON ''"]
  by (auto simp add: json_error_prefix_def surrogate_def)

lemma deny_message_chars:
  "c \<in> set (deny_message f) \<Longrightarrow> surrogate c \<Longrightarrow> c \<in> set f"
  by (auto simp add: deny_message_def surrogate_def)

lemma fault_result_encodable: "\<forall>c \<in> set (json_dumps (fault_result e)). \<not> surrogate c"
proof (cases e)
  case (Exc k m)
  show ?thesis
  proof (intro ballI notI)
    fix c assume "c \<in> set (json_dumps (fault_result e))" and "surrogate c"
    then show False
      using json_dumps_surrogate [of c "fault_result e"] Exc
        error_prefix_chars [of c] py_not_surrogate [of c]
      by (auto simp add: fault_result_def)
  qed
qed

lemma body_result_encodable:
  assumes "body_result fl rt raw = Inr r"
  shows "\<forall>c \<in> set (json_dumps r). \<not> surrogate c"
proof (intro ballI notI)
  fix c assume c: "c \<in> set (json_dumps r)" and s: "surrogate c"
  from json_dumps_surrogate [OF c s]
  have "c \<in> set (permission r) \<or> (\<exists>m. user_message r = Some m \<and> c \<in> set m)" .
  moreover have "\<not> surrogate x" if "x \<in> set (str_exc e)" for x e
    using that py_not_surrogate by (cases e) auto
  ultimately show False
    using assms s py_not_surrogate [of c] json_error_prefix_chars [of c]
      deny_message_chars [of c] ci_member_shape
    by (auto simp add: body_result_def is_sensitive_file_iff
        split: sum.splits if_splits)
qed

lemma decision_encodable: "\<forall>c \<in> set (json_dumps (decision fl rt raw)). \<not> surrogate c"
  using fault_result_encodable body_result_encodable
  by (auto simp add: decision_def split: sum.splits)

lemma try_body_eq:
  "try_body fl rt raw p =
     (case body_result fl rt raw of Inl e \<Rightarrow> Inl e | Inr r \<Rightarrow> write_result r p)"
  by (simp add: try_body_def body_result_def Let_def split: sum.splits)

lemma main_eq:
  "main fl rt p =
     (None, p\<lparr>stdin := [], stdout := stdout p @ document (decision fl rt (stdin p))\<rparr>)"
proof (cases "body_result fl rt (stdin p)")
  case (Inl e)
  then show ?thesis
    using write_result_ok [OF fault_result_encodable, of e "p\<lparr>stdin := []\<rparr>"]
    by (simp add: main_def Let_def try_body_eq decision_def fault_result_def)
next
  case (Inr r)
  then show ?thesis
    using write_result_ok [OF body_result_encodable [OF Inr], of "p\<lparr>stdin := []\<rparr>"]
    by (simp add: main_def Let_def try_body_eq decision_def)
qed

lemma main_emits: "emits fl rt p (decision fl rt (stdin p))"
  using encode_utf8_ok [OF decision_encodable, of fl rt "stdin p"]
  by (simp add: emits_def main_eq document_def)


section \<open>Facts about the denylist and its path entries\<close>

lemma SENSITIVE_FILES_split:
  "f \<in> set SENSITIVE_FILES \<Longrightarrow> slash \<notin> set f \<Longrightarrow> f \<in> set SENSITIVE_FILES_without_paths"
  by (simp add: SENSITIVE_FILES_without_paths_def) (auto simp add: py_def)

lemma SENSITIVE_FILES_without_paths_subset:
  "set SENSITIVE_FILES_without_paths \<subseteq> set SENSITIVE_FILES"
  by (auto simp add: SENSITIVE_FILES_without_paths_def)

lemma lower_without_paths: "map lower SENSITIVE_FILES_without_paths = SENSITIVE_FILES_without_paths"
proof -
  have "\<forall>f \<in> set SENSITIVE_FILES. lower f = f"
    using lower_SENSITIVE_FILES map_eq_conv [of lower SENSITIVE_FILES id] by simp
  then show ?thesis
    using SENSITIVE_FILES_without_paths_subset by (auto intro: map_idI)
qed

lemma sensitive_base_name:
  assumes "is_sensitive_file b" and "slash \<notin> set b"
  shows "b \<noteq> [] \<and> b \<noteq> [dot] \<and> slash \<notin> set b \<and> bslash \<notin> set b \<and> colon \<notin> set b"
  using assms ci_member_shape [of b] by (simp add: is_sensitive_file_iff)

section \<open>Facts about the scenario runtime\<close>

lemma scenario_decode_ascii:
  "ascii_bytes s \<noteq> [0xFF] \<Longrightarrow> decode_utf8 scenario_runtime (ascii_bytes s) = Inr (py s)"
proof -
  have "unat (of_char c :: byte) = of_char c" for c
  proof -
    have "(of_char c :: byte) = of_nat (of_char c)" by (simp add: of_nat_of_char)
    then have "unat (of_char c :: byte) = of_char c mod 256" by (simp only: unat_of_nat) simp
    then show ?thesis by simp
  qed
  then have "map unat (ascii_bytes s) = py s"
    by (simp add: ascii_bytes_def py_def)
  then show "ascii_bytes s \<noteq> [0xFF] \<Longrightarrow> decode_utf8 scenario_runtime (ascii_bytes s) = Inr (py s)"
    by (simp add: scenario_runtime_def scenario_decode_def)
qed

lemma scenario_loads_eval:
  "json_loads scenario_runtime (py (json_file_path ''123'')) = Inr (PyDict [(py ''file_path'', PyInt 123)])"
  "json_loads scenario_runtime (py (json_file_path ''0'')) = Inr (PyDict [(py ''file_path'', PyInt 0)])"
  "json_loads scenario_runtime (py (json_file_path (json_quoted ''/home/user/.env'')))
     = Inr (PyDict [(py ''file_path'', PyStr (py ''/home/user/.env''))])"
  "json_loads scenario_runtime (py (json_file_path (json_quoted ''/home/user/notes.txt'')))
     = Inr (PyDict [(py ''file_path'', PyStr (py ''/home/user/notes.txt''))])"
  "json_loads scenario_runtime (py ''{}'') = Inr (PyDict [])"
  "json_loads scenario_runtime (py ''[1]'') = Inr (PyList [PyInt 1])"
  "json_loads scenario_runtime (py ''not valid json'')
     = Inl (Exc JSONDecodeError ''Expecting value: line 1 column 1 (char 0)'')"
  by (simp_all add: scenario_runtime_def scenario_loads_def json_file_path_def json_quoted_def py_def)

lemma scenario_loads_aws:
  "json_loads scenario_runtime (py (json_file_path (json_quoted ''/home/user/.aws/credentials'')))
     = Inr (PyDict [(py ''file_path'', PyStr (py ''/home/user/.aws/credentials''))])"
  by (simp add: scenario_runtime_def scenario_loads_def json_file_path_def json_quoted_def py_def)

lemma scenario_stdin: "stdin (scenario doc) = ascii_bytes doc"
  by (simp add: scenario_def)

lemma scenario_not_ff:
  "ascii_bytes (json_file_path v) \<noteq> [0xFF]" "ascii_bytes ''{}'' \<noteq> [0xFF]"
  "ascii_bytes ''[1]'' \<noteq> [0xFF]" "ascii_bytes ''not valid json'' \<noteq> [0xFF]"
  by (simp_all add: ascii_bytes_def json_file_path_def)

section \<open>Facts about the decision\<close>

lemma type_error_not_str:
  "truthy v \<Longrightarrow> \<forall>s. v \<noteq> PyStr s \<Longrightarrow>
   get_filename_from_path fl v =
     Inl (Exc TypeError (''expected str, bytes or os.PathLike object, not '' @ type_name v))"
  by (cases v) (simp_all add: get_filename_from_path_def Path_def)

lemma emits_decision: "decision fl rt (stdin p) = r \<Longrightarrow> emits fl rt p r"
  using main_emits [of fl rt p] by simp

lemma document_inj_allow:
  "document \<lparr>permission = py ''allow'', user_message = Some m\<rparr>
     \<noteq> document \<lparr>permission = py ''allow'', user_message = None\<rparr>"
proof -
  have "utf8_char c \<noteq> []" for c by (simp add: utf8_char_def)
  have a: "document \<lparr>permission = py ''allow'', user_message = None\<rparr> ! 22 = 0x7D"
    by (simp add: document_def json_dumps_def encode_basestring_def escape_char_def py_def utf8_char_def)
  have b: "document \<lparr>permission = py ''allow'', user_message = Some m\<rparr> ! 22 = 0x2C"
    by (simp add: document_def json_dumps_def encode_basestring_def escape_char_def py_def utf8_char_def)
  show ?thesis using a b by auto
qed

lemma emits_iff:
  assumes "\<forall>c \<in> set (json_dumps r). \<not> surrogate c"
  shows "emits fl rt p r \<longleftrightarrow>
    main fl rt p = (None, p\<lparr>stdin := [], stdout := stdout p @ document r\<rparr>)"
  using encode_utf8_ok [OF assms] by (simp add: emits_def document_def)

lemma allow_plain_encodable:
  "\<forall>c \<in> set (json_dumps \<lparr>permission = py ''allow'', user_message = None\<rparr>). \<not> surrogate c"
proof (intro ballI notI)
  fix c
  assume "c \<in> set (json_dumps \<lparr>permission = py ''allow'', user_message = None\<rparr>)"
    and "surrogate c"
  then show False
    using json_dumps_surrogate [of c "\<lparr>permission = py ''allow'', user_message = None\<rparr>"]
      py_not_surrogate [of c "''allow''"]
    by simp
qed




section \<open>The claims\<close>

text \<open>
  C1 (the claim fails on the code). The denylist holds \<open>.aws/credentials\<close> and
  \<open>.aws/config\<close>, yet on either host \<open>classify\<close> answers that these paths are not
  sensitive: only the base names \<open>credentials\<close> and \<open>config\<close> are compared, and they
  are not entries. A request to read \<open>/home/user/.aws/credentials\<close> is allowed.
\<close>

theorem aws_entries_not_classified:
  "py ''.aws/credentials'' \<in> set SENSITIVE_FILES
   \<and> py ''.aws/config'' \<in> set SENSITIVE_FILES
   \<and> classify fl (py ''.aws/credentials'') = False
   \<and> classify fl (py ''.aws/config'') = False
   \<and> classify fl (py ''/home/user/.aws/credentials'') = False
   \<and> emits fl scenario_runtime
         (scenario (json_file_path (json_quoted ''/home/user/.aws/credentials'')))
         \<lparr>permission = py ''allow'', user_message = None\<rparr>"
proof -
  have home: "\<not> classify fl (py ''/home/user/.aws/credentials'')"
    by (cases fl; simp add: path_eval) (simp_all add: member_eval)
  have "\<not> classify fl (py ''.aws/credentials'')"
    by (cases fl; simp add: path_eval) (simp_all add: member_eval)
  moreover have "\<not> classify fl (py ''.aws/config'')"
    by (cases fl; simp add: path_eval) (simp_all add: member_eval)
  moreover note home
  moreover have "py ''.aws/credentials'' \<in> set SENSITIVE_FILES"
    by (simp add: SENSITIVE_FILES_def)
  moreover have "py ''.aws/config'' \<in> set SENSITIVE_FILES"
    by (simp add: SENSITIVE_FILES_def)
  moreover have "emits fl scenario_runtime
         (scenario (json_file_path (json_quoted ''/home/user/.aws/credentials'')))
         \<lparr>permission = py ''allow'', user_message = None\<rparr>"
    using home
    by (intro emits_decision)
       (simp add: decision_def body_result_def scenario_stdin scenario_decode_ascii
          scenario_not_ff scenario_loads_aws data_get_def get_filename_str
          is_sensitive_file_iff classify_eq)
  ultimately show ?thesis by simp
qed

theorem aws_entries_not_classified_witness:
  "classify Posix (py ''.aws/credentials'') = False
   \<and> classify Windows (py ''.aws/credentials'') = False"
  using aws_entries_not_classified [of Posix] aws_entries_not_classified [of Windows] by simp

text \<open>
  C2 (as amended). Let \<open>b\<close> be a sensitive base name (\<open>is_sensitive_file b\<close>, no
  \<open>/\<close> in it). On either host \<open>classify b\<close> is true. On a POSIX host
  \<open>classify (d + "/" + b)\<close> is true for every prefix \<open>d\<close>. On a Windows host
  \<open>classify (d + s + b)\<close> is true for every prefix \<open>d\<close> and either separator \<open>s\<close>
  (slash or backslash), provided the path does not start with two separators.
\<close>

theorem classify_under_directories:
  assumes "is_sensitive_file b" and "slash \<notin> set b"
  shows "classify fl b
    \<and> classify Posix (d @ slash # b)
    \<and> ((s = slash \<or> s = bslash) \<and> \<not> double_sep (d @ s # b) \<longrightarrow> classify Windows (d @ s # b))"
proof -
  have shape: "b \<noteq> [] \<and> b \<noteq> [dot] \<and> slash \<notin> set b \<and> bslash \<notin> set b \<and> colon \<notin> set b"
    using assms by (rule sensitive_base_name)
  have m: "ci_member b" using assms(1) by (simp add: is_sensitive_file_iff)
  have "classify fl b" using shape m by (simp add: classify_eq name_plain)
  moreover have "classify Posix (d @ slash # b)"
    using shape m by (simp add: classify_eq name_prefixed_posix)
  moreover have "classify Windows (d @ s # b)"
    if "s = slash \<or> s = bslash" and "\<not> double_sep (d @ s # b)"
    using shape m that by (simp add: classify_eq name_prefixed_windows)
  ultimately show ?thesis by blast
qed

theorem classify_under_directories_witness:
  "is_sensitive_file (py ''.env'') \<and> slash \<notin> set (py ''.env'')
   \<and> \<not> double_sep (py ''a'' @ bslash # py ''b'' @ bslash # py ''.env'')
   \<and> classify Posix (py ''.env'') \<and> classify Windows (py ''.env'')
   \<and> classify Posix (py ''a/b/.env'')
   \<and> classify Windows (py ''a/b/.env'')
   \<and> classify Windows (py ''a'' @ bslash # py ''b'' @ bslash # py ''.env'')"
proof -
  have s: "is_sensitive_file (py ''.env'')"
    by (simp add: is_sensitive_file_iff) (simp add: member_eval)
  have n: "slash \<notin> set (py ''.env'')" by (simp add: py_def)
  have d: "\<not> double_sep (py ''a'' @ bslash # py ''b'' @ bslash # py ''.env'')"
    by (simp add: py_def)
  have d': "\<not> double_sep (py ''a/b'' @ slash # py ''.env'')"
    by (simp add: py_def)
  have e: "py ''a/b/.env'' = py ''a/b'' @ slash # py ''.env''" by (simp add: py_def)
  have e': "py ''a'' @ bslash # py ''b'' @ bslash # py ''.env'' = (py ''a'' @ bslash # py ''b'') @ bslash # py ''.env''"
    by simp
  show ?thesis
    using classify_under_directories [OF s n, of Posix "py ''a/b''" slash]
      classify_under_directories [OF s n, of Windows "py ''a'' @ bslash # py ''b''" bslash]
      s n d d' 
    unfolding e e' by simp
qed

theorem backslash_path_on_posix_counterexample:
  "\<not> classify Posix (py ''a'' @ bslash # py ''b'' @ bslash # py ''.env'')"
  by (simp add: path_eval) (simp add: member_eval)

text \<open>
  C3 (as amended). For the empty path \<open>classify\<close> is false on either host. A trailing
  separator does not empty the base name: \<open>pathlib\<close> drops it. On a POSIX host
  \<open>classify (p + "/") = classify p\<close> for every path \<open>p\<close>; on a Windows host
  \<open>classify (p + s) = classify p\<close> for either separator \<open>s\<close>, provided \<open>p + s\<close> does
  not start with two separators. So a path ending in a separator is classified not
  sensitive only when its last component is not a sensitive name.
\<close>

theorem trailing_separator_dropped:
  "\<not> classify fl []
   \<and> classify Posix (p @ [slash]) = classify Posix p
   \<and> ((s = slash \<or> s = bslash) \<and> \<not> double_sep (p @ [s]) \<longrightarrow>
        classify Windows (p @ [s]) = classify Windows p)"
proof -
  have "\<not> classify fl []"
    using ci_member_Nil by (simp add: classify_eq parse_parts_def name_def)
  moreover have "classify Posix (p @ [slash]) = classify Posix p"
    by (simp add: classify_eq name_trailing_posix)
  moreover have "classify Windows (p @ [s]) = classify Windows p"
    if "s = slash \<or> s = bslash" and "\<not> double_sep (p @ [s])"
    using that by (simp add: classify_eq name_trailing_windows)
  ultimately show ?thesis by blast
qed

theorem trailing_separator_dropped_witness:
  "\<not> double_sep (py ''C:'' @ bslash # py ''Users'' @ bslash # py ''.env'' @ [bslash])
   \<and> classify Windows (py ''C:'' @ bslash # py ''Users'' @ bslash # py ''.env'' @ [bslash])
   \<and> classify Posix (py ''/home/user/.env/'')
   \<and> \<not> classify Posix (py ''/'')
   \<and> \<not> classify Posix (py ''notes/'')"
proof -
  have d: "\<not> double_sep (py ''C:'' @ bslash # py ''Users'' @ bslash # py ''.env'' @ [bslash])"
    by (simp add: py_def)
  have w: "classify Windows (py ''C:'' @ bslash # py ''Users'' @ bslash # py ''.env'')"
    by (simp add: path_eval) (simp add: member_eval)
  have p: "classify Posix (py ''/home/user/.env'')"
    by (simp add: path_eval) (simp add: member_eval)
  have n: "\<not> classify Posix (py ''notes'')"
    by (simp add: path_eval) (simp add: member_eval)
  have e1: "py ''/home/user/.env/'' = py ''/home/user/.env'' @ [slash]" by (simp add: py_def)
  have e2: "py ''/'' = [] @ [slash]" by (simp add: py_def)
  have e3: "py ''notes/'' = py ''notes'' @ [slash]" by (simp add: py_def)
  have e4: "py ''C:'' @ bslash # py ''Users'' @ bslash # py ''.env'' @ [bslash]
      = (py ''C:'' @ bslash # py ''Users'' @ bslash # py ''.env'') @ [bslash]" by simp
  show ?thesis
    using trailing_separator_dropped
            [of Windows "py ''C:'' @ bslash # py ''Users'' @ bslash # py ''.env''" bslash]
      trailing_separator_dropped [of Posix "py ''/home/user/.env''" slash]
      trailing_separator_dropped [of Posix "[]" slash]
      trailing_separator_dropped [of Posix "py ''notes''" slash]
      d w p n
    unfolding e1 e2 e3 e4 by simp
qed

theorem trailing_separator_counterexample:
  "classify Posix (py ''.env/'') \<and> classify Windows (py ''.env/'')"
proof -
  have "classify Posix (py ''.env/'')"
    by (simp add: path_eval) (simp add: member_eval)
  moreover have "classify Windows (py ''.env/'')"
    by (simp add: path_eval) (simp add: member_eval)
  ultimately show ?thesis by simp
qed

text \<open>
  C4 (as amended). For an input that decodes and parses to a JSON object: when
  \<open>file_path\<close> is absent or falsy (the empty string, \<open>null\<close>, \<open>false\<close>, a zero, an
  empty list or object), the decision is \<open>allow\<close> with no \<open>user_message\<close>; when it
  is a truthy value that is not a string, \<open>Path\<close> raises \<open>TypeError\<close> and the decision
  is \<open>allow\<close> with the handler's diagnostic \<open>user_message\<close>.
\<close>

theorem missing_or_invalid_file_path:
  assumes "decode_utf8 rt (stdin p) = Inr input_data"
    and "json_loads rt input_data = Inr (PyDict kvs)"
  shows "(map_of kvs (py ''file_path'') = None \<longrightarrow>
            emits fl rt p \<lparr>permission = py ''allow'', user_message = None\<rparr>)
    \<and> (\<forall>v. map_of kvs (py ''file_path'') = Some v \<and> \<not> truthy v \<longrightarrow>
            emits fl rt p \<lparr>permission = py ''allow'', user_message = None\<rparr>)
    \<and> (\<forall>v. map_of kvs (py ''file_path'') = Some v \<and> truthy v \<and> (\<forall>s. v \<noteq> PyStr s) \<longrightarrow>
            emits fl rt p
              \<lparr>permission = py ''allow'',
               user_message = Some (error_prefix
                 @ py (''expected str, bytes or os.PathLike object, not '' @ type_name v))\<rparr>)"
proof (intro conjI allI impI)
  assume "map_of kvs (py ''file_path'') = None"
  then show "emits fl rt p \<lparr>permission = py ''allow'', user_message = None\<rparr>"
    using assms by (intro emits_decision) (simp add: decision_def body_result_def data_get_def)
next
  fix v assume "map_of kvs (py ''file_path'') = Some v \<and> \<not> truthy v"
  then show "emits fl rt p \<lparr>permission = py ''allow'', user_message = None\<rparr>"
    using assms by (intro emits_decision) (simp add: decision_def body_result_def data_get_def)
next
  fix v assume "map_of kvs (py ''file_path'') = Some v \<and> truthy v \<and> (\<forall>s. v \<noteq> PyStr s)"
  then show "emits fl rt p
              \<lparr>permission = py ''allow'',
               user_message = Some (error_prefix
                 @ py (''expected str, bytes or os.PathLike object, not '' @ type_name v))\<rparr>"
    using assms type_error_not_str [of v fl]
    by (intro emits_decision)
       (simp add: decision_def body_result_def data_get_def fault_result_def)
qed

theorem missing_or_invalid_file_path_witness:
  "emits Posix scenario_runtime (scenario ''{}'') \<lparr>permission = py ''allow'', user_message = None\<rparr>
   \<and> emits Posix scenario_runtime (scenario (json_file_path ''0''))
        \<lparr>permission = py ''allow'', user_message = None\<rparr>
   \<and> emits Posix scenario_runtime (scenario (json_file_path ''123''))
        \<lparr>permission = py ''allow'',
         user_message = Some (error_prefix
           @ py ''expected str, bytes or os.PathLike object, not int'')\<rparr>"
proof -
  have 1: "map_of [] (py ''file_path'') = None" by simp
  have 2: "map_of [(py ''file_path'', PyInt 0)] (py ''file_path'') = Some (PyInt 0) \<and> \<not> truthy (PyInt 0)"
    by simp
  have 3: "map_of [(py ''file_path'', PyInt 123)] (py ''file_path'') = Some (PyInt 123)
      \<and> truthy (PyInt 123) \<and> (\<forall>s. PyInt 123 \<noteq> PyStr s)"
    by simp
  show ?thesis
    using missing_or_invalid_file_path
            [of scenario_runtime "scenario ''{}''" "py ''{}''" "[]" Posix]
      missing_or_invalid_file_path
            [of scenario_runtime "scenario (json_file_path ''0'')" "py (json_file_path ''0'')"
                "[(py ''file_path'', PyInt 0)]" Posix]
      missing_or_invalid_file_path
            [of scenario_runtime "scenario (json_file_path ''123'')" "py (json_file_path ''123'')"
                "[(py ''file_path'', PyInt 123)]" Posix]
      1 2 3
    by (simp add: scenario_stdin scenario_decode_ascii scenario_not_ff scenario_loads_eval)
qed

theorem non_string_file_path_counterexample:
  "emits Posix scenario_runtime (scenario (json_file_path ''123''))
     \<lparr>permission = py ''allow'',
      user_message = Some (error_prefix
        @ py ''expected str, bytes or os.PathLike object, not int'')\<rparr>
   \<and> \<not> emits Posix scenario_runtime (scenario (json_file_path ''123''))
         \<lparr>permission = py ''allow'', user_message = None\<rparr>"
proof -
  let ?p = "scenario (json_file_path ''123'')"
  let ?r = "\<lparr>permission = py ''allow'',
      user_message = Some (error_prefix
        @ py ''expected str, bytes or os.PathLike object, not int'')\<rparr>"
  have d: "decision Posix scenario_runtime (stdin ?p) = ?r"
    by (simp add: scenario_stdin decision_def body_result_def scenario_decode_ascii scenario_not_ff
        scenario_loads_eval data_get_def get_filename_from_path_def Path_def fault_result_def)
  then have e: "emits Posix scenario_runtime ?p ?r" by (rule emits_decision)
  have "main Posix scenario_runtime ?p
      \<noteq> (None, ?p\<lparr>stdin := [], stdout := stdout ?p @ document \<lparr>permission = py ''allow'', user_message = None\<rparr>\<rparr>)"
  proof
    assume "main Posix scenario_runtime ?p
      = (None, ?p\<lparr>stdin := [], stdout := stdout ?p @ document \<lparr>permission = py ''allow'', user_message = None\<rparr>\<rparr>)"
    then have "stdout (snd (main Posix scenario_runtime ?p))
      = stdout ?p @ document \<lparr>permission = py ''allow'', user_message = None\<rparr>"
      by simp
    moreover have "stdout (snd (main Posix scenario_runtime ?p)) = stdout ?p @ document ?r"
      by (simp add: main_eq d)
    ultimately show False using document_inj_allow by simp
  qed
  then have "\<not> emits Posix scenario_runtime ?p \<lparr>permission = py ''allow'', user_message = None\<rparr>"
    by (simp add: emits_iff allow_plain_encodable)
  with e show ?thesis by simp
qed

text \<open>
  C5. For an input that decodes and parses to a JSON object whose \<open>file_path\<close> is a
  string, let \<open>n\<close> be the base filename the program extracts from it. The decision is
  \<open>deny\<close> exactly when the lowercased \<open>n\<close> equals a lowercased denylist entry, and
  then its \<open>user_message\<close> is the denial text with \<open>n\<close> inside it; otherwise the
  decision is \<open>allow\<close> with no \<open>user_message\<close>.
\<close>

theorem deny_iff_sensitive:
  assumes "decode_utf8 rt (stdin p) = Inr input_data"
    and "json_loads rt input_data = Inr (PyDict kvs)"
    and "map_of kvs (py ''file_path'') = Some (PyStr path)"
    and "get_filename_from_path fl (PyStr path) = Inr n"
  shows "emits fl rt p
           (if \<exists>f \<in> set SENSITIVE_FILES. lower n = lower f
            then \<lparr>permission = py ''deny'', user_message = Some (deny_message n)\<rparr>
            else \<lparr>permission = py ''allow'', user_message = None\<rparr>)
    \<and> (\<exists>before after. deny_message n = before @ n @ after)"
proof -
  have m: "is_sensitive_file n = (\<exists>f \<in> set SENSITIVE_FILES. lower n = lower f)"
    by (auto simp add: is_sensitive_file_iff ci_member_def)
  have e: "path = [] \<Longrightarrow> \<not> is_sensitive_file n"
    using assms(4) ci_member_Nil
    by (simp add: get_filename_from_path_def is_sensitive_file_iff)
  have "decision fl rt (stdin p) =
      (if is_sensitive_file n
       then \<lparr>permission = py ''deny'', user_message = Some (deny_message n)\<rparr>
       else \<lparr>permission = py ''allow'', user_message = None\<rparr>)"
    using assms e by (simp add: decision_def body_result_def data_get_def)
  then have "emits fl rt p
           (if \<exists>f \<in> set SENSITIVE_FILES. lower n = lower f
            then \<lparr>permission = py ''deny'', user_message = Some (deny_message n)\<rparr>
            else \<lparr>permission = py ''allow'', user_message = None\<rparr>)"
    using m emits_decision [of fl rt p] by simp
  moreover have "\<exists>before after. deny_message n = before @ n @ after"
    unfolding deny_message_def by blast
  ultimately show ?thesis by simp
qed

theorem deny_iff_sensitive_witness:
  "emits Posix scenario_runtime (scenario (json_file_path (json_quoted ''/home/user/.env'')))
     \<lparr>permission = py ''deny'', user_message = Some (deny_message (py ''.env''))\<rparr>
   \<and> emits Posix scenario_runtime (scenario (json_file_path (json_quoted ''/home/user/notes.txt'')))
     \<lparr>permission = py ''allow'', user_message = None\<rparr>"
proof -
  have n1: "get_filename_from_path Posix (PyStr (py ''/home/user/.env'')) = Inr (py ''.env'')"
    by (simp add: get_filename_str name_posix final_component_def py_def)
  have n2: "get_filename_from_path Posix (PyStr (py ''/home/user/notes.txt'')) = Inr (py ''notes.txt'')"
    by (simp add: get_filename_str name_posix final_component_def py_def)
  have s1: "\<exists>f \<in> set SENSITIVE_FILES. lower (py ''.env'') = lower f"
    using ci_member_iff [of "py ''.env''"]
    by (simp add: ci_member_def) (simp add: lower_ascii SENSITIVE_FILES_def py_def)
  have s2: "\<not> (\<exists>f \<in> set SENSITIVE_FILES. lower (py ''notes.txt'') = lower f)"
    using ci_member_iff [of "py ''notes.txt''"]
    by (simp add: ci_member_def) (simp add: lower_ascii SENSITIVE_FILES_def py_def)
  have k1: "map_of [(py ''file_path'', PyStr (py ''/home/user/.env''))] (py ''file_path'')
      = Some (PyStr (py ''/home/user/.env''))" by simp
  have k2: "map_of [(py ''file_path'', PyStr (py ''/home/user/notes.txt''))] (py ''file_path'')
      = Some (PyStr (py ''/home/user/notes.txt''))" by simp
  have d1: "decode_utf8 scenario_runtime (stdin (scenario (json_file_path (json_quoted ''/home/user/.env''))))
      = Inr (py (json_file_path (json_quoted ''/home/user/.env'')))"
    by (simp add: scenario_stdin scenario_decode_ascii scenario_not_ff)
  have d2: "decode_utf8 scenario_runtime (stdin (scenario (json_file_path (json_quoted ''/home/user/notes.txt''))))
      = Inr (py (json_file_path (json_quoted ''/home/user/notes.txt'')))"
    by (simp add: scenario_stdin scenario_decode_ascii scenario_not_ff)
  show ?thesis
    using deny_iff_sensitive [OF d1 scenario_loads_eval(3) k1 n1]
      deny_iff_sensitive [OF d2 scenario_loads_eval(4) k2 n2] s1 s2
    by simp
qed





text \<open>
  C8. Matching is exact equality after lowercasing both sides, never substring or
  pattern matching: \<open>classify\<close> holds of a path exactly when the lowercased base
  filename equals a lowercased entry of the denylist. So a path whose base filename
  is not case-insensitively an entry is classified not sensitive, and the near-misses
  \<open>myconfig.json.bak\<close>, \<open>config.json.bak\<close> and \<open>myconfig.json\<close> are not sensitive.
\<close>

theorem exact_match_only:
  "(get_filename_from_path fl (PyStr p) = Inr n \<longrightarrow>
      classify fl p = (\<exists>f \<in> set SENSITIVE_FILES. lower n = lower f))
   \<and> \<not> classify fl (py ''myconfig.json.bak'')
   \<and> \<not> classify fl (py ''config.json.bak'')
   \<and> \<not> classify fl (py ''myconfig.json'')"
proof -
  have "classify fl p = (\<exists>f \<in> set SENSITIVE_FILES. lower n = lower f)"
    if "get_filename_from_path fl (PyStr p) = Inr n"
    using that by (auto simp add: get_filename_str classify_eq ci_member_def)
  moreover have "\<not> classify fl (py ''myconfig.json.bak'')"
    by (cases fl; simp add: path_eval) (simp_all add: member_eval)
  moreover have "\<not> classify fl (py ''config.json.bak'')"
    by (cases fl; simp add: path_eval) (simp_all add: member_eval)
  moreover have "\<not> classify fl (py ''myconfig.json'')"
    by (cases fl; simp add: path_eval) (simp_all add: member_eval)
  ultimately show ?thesis by blast
qed

theorem exact_match_only_witness:
  "get_filename_from_path Posix (PyStr (py ''/srv/app/config.json.bak'')) = Inr (py ''config.json.bak'')
   \<and> \<not> (\<exists>f \<in> set SENSITIVE_FILES. lower (py ''config.json.bak'') = lower f)
   \<and> \<not> classify Posix (py ''/srv/app/config.json.bak'')"
proof -
  have n: "get_filename_from_path Posix (PyStr (py ''/srv/app/config.json.bak'')) = Inr (py ''config.json.bak'')"
    by (simp add: get_filename_str name_posix final_component_def py_def)
  have c: "\<not> classify Posix (py ''/srv/app/config.json.bak'')"
    by (simp add: path_eval) (simp add: member_eval)
  show ?thesis
    using exact_match_only [of Posix "py ''/srv/app/config.json.bak''" "py ''config.json.bak''"] n c
    by simp
qed

text \<open>
  C9. The run is a function of its input: two runs on the same host whose standard
  inputs hold the same bytes end alike and write the same bytes, whatever else the
  two processes hold.
\<close>

theorem output_determined_by_input:
  assumes "stdin p1 = stdin p2"
  shows "fst (main fl rt p1) = fst (main fl rt p2)
    \<and> written p1 (main fl rt p1) = written p2 (main fl rt p2)"
  using assms by (simp add: main_eq written_def)

theorem output_determined_by_input_witness:
  "stdin (scenario ''{}'') = stdin \<lparr>stdin = ascii_bytes ''{}'', stdout = [0x0A]\<rparr>
   \<and> written (scenario ''{}'') (main Posix scenario_runtime (scenario ''{}''))
     = written \<lparr>stdin = ascii_bytes ''{}'', stdout = [0x0A]\<rparr>
         (main Posix scenario_runtime \<lparr>stdin = ascii_bytes ''{}'', stdout = [0x0A]\<rparr>)"
proof -
  have s: "stdin (scenario ''{}'') = stdin \<lparr>stdin = ascii_bytes ''{}'', stdout = [0x0A]\<rparr>"
    by (simp add: scenario_def)
  show ?thesis
    using output_determined_by_input [OF s, of Posix scenario_runtime] s by simp
qed

text \<open>
  C10. The four denylist entries that contain a path separator never match: the
  extracted base name contains no separator, so for every path the classifier over
  the whole denylist equals the classifier over the denylist without them.
\<close>

theorem separator_entries_never_match:
  "classify fl p = classify_in SENSITIVE_FILES_without_paths fl p"
proof -
  let ?n = "name (parse_parts fl p)"
  have ns: "slash \<notin> set (lower ?n)"
    using name_no_slash [of fl p] by (rule lower_no_slash)
  have "lower ?n \<in> set SENSITIVE_FILES \<longleftrightarrow> lower ?n \<in> set SENSITIVE_FILES_without_paths"
    using ns SENSITIVE_FILES_split SENSITIVE_FILES_without_paths_subset by blast
  then show ?thesis
    by (simp add: classify_def classify_in_eq is_sensitive_file_in_def sensitive_loop_iff
        lower_SENSITIVE_FILES lower_without_paths)
qed

theorem separator_entries_never_match_witness:
  "py ''.aws/config'' \<in> set SENSITIVE_FILES
   \<and> py ''.aws/config'' \<notin> set SENSITIVE_FILES_without_paths
   \<and> classify Posix (py ''/home/user/.aws/config'') = False
   \<and> classify_in SENSITIVE_FILES_without_paths Posix (py ''/home/user/.aws/config'') = False"
proof -
  have "\<not> classify Posix (py ''/home/user/.aws/config'')"
    by (simp add: path_eval) (simp add: member_eval)
  moreover have "py ''.aws/config'' \<in> set SENSITIVE_FILES"
    by (simp add: SENSITIVE_FILES_def)
  moreover have "py ''.aws/config'' \<notin> set SENSITIVE_FILES_without_paths"
    by (simp add: SENSITIVE_FILES_without_paths_def)
  ultimately show ?thesis
    using separator_entries_never_match [of Posix "py ''/home/user/.aws/config''"] by simp
qed

end
